theory Spec2Isabelle
  imports Complex_Main "HOL-Library.AList" "HOL-Library.Sublist"
begin

section \<open>Python values, dictionaries and exceptions\<close>

text \<open>
  The employee records are what \<^verbatim>\<open>json.load\<close> produces: dictionaries from field names
  to values. The values covered are strings, integers, floats and lists; a string is a
  sequence of code points below 256. A dictionary is an association list in insertion
  order (a Python \<^verbatim>\<open>dict\<close> keeps it), read with \<^const>\<open>map_of\<close> and written with
  \<^const>\<open>AList.update\<close>, which overwrites a key in place and appends a new one.
\<close>

datatype pyval = PStr string | PInt int | PFloat real | PList "pyval list"

type_synonym pydict = "(string \<times> pyval) list"

datatype error =
    KeyError string
  | TypeError
  | IndexError
  | AssertionError
  | CollaboratorError string
  | HTTPException nat error

fun bindE :: "error + 'a \<Rightarrow> ('a \<Rightarrow> error + 'b) \<Rightarrow> error + 'b" where
  "bindE (Inl e) f = Inl e"
| "bindE (Inr x) f = f x"

fun mapE :: "('a \<Rightarrow> error + 'b) \<Rightarrow> 'a list \<Rightarrow> error + 'b list" where
  "mapE f [] = Inr []"
| "mapE f (x # xs) = bindE (f x) (\<lambda>y. bindE (mapE f xs) (\<lambda>ys. Inr (y # ys)))"

text \<open>\<^verbatim>\<open>d[k]\<close>: a missing key raises \<^verbatim>\<open>KeyError\<close>.\<close>

definition py_get :: "pydict \<Rightarrow> string \<Rightarrow> error + pyval" where
  "py_get d k = (case map_of d k of None \<Rightarrow> Inl (KeyError k) | Some v \<Rightarrow> Inr v)"

text \<open>\<^verbatim>\<open>xs[i]\<close> on a list: a negative index counts from the end.\<close>

definition py_index :: "'a list \<Rightarrow> int \<Rightarrow> error + 'a" where
  "py_index xs i =
     (if 0 \<le> i \<and> i < int (length xs) then Inr (xs ! nat i)
      else if i < 0 \<and> - int (length xs) \<le> i then Inr (xs ! nat (int (length xs) + i))
      else Inl IndexError)"

fun join :: "string \<Rightarrow> string list \<Rightarrow> string" where
  "join sep [] = []"
| "join sep [x] = x"
| "join sep (x # y # ys) = x @ sep @ join sep (y # ys)"

fun the_str :: "pyval \<Rightarrow> error + string" where
  "the_str (PStr s) = Inr s"
| "the_str v = Inl TypeError"

text \<open>
  \<^verbatim>\<open>sep.join(v)\<close>: every item of a list must be a string; a string is iterated
  character by character; a number is not iterable.
\<close>

fun py_join :: "string \<Rightarrow> pyval \<Rightarrow> error + string" where
  "py_join sep (PList vs) = bindE (mapE the_str vs) (\<lambda>ss. Inr (join sep ss))"
| "py_join sep (PStr s) = Inr (join sep (map (\<lambda>c. [c]) s))"
| "py_join sep (PInt i) = Inl TypeError"
| "py_join sep (PFloat r) = Inl TypeError"

text \<open>\<^verbatim>\<open>v[:n]\<close>: lists and strings are sliced, numbers are not subscriptable.\<close>

fun py_slice_to :: "nat \<Rightarrow> pyval \<Rightarrow> error + pyval" where
  "py_slice_to n (PList vs) = Inr (PList (take n vs))"
| "py_slice_to n (PStr s) = Inr (PStr (take n s))"
| "py_slice_to n (PInt i) = Inl TypeError"
| "py_slice_to n (PFloat r) = Inl TypeError"

fun str_of_nat :: "nat \<Rightarrow> string" where
  "str_of_nat n =
     (if n < 10 then [''0123456789'' ! n]
      else str_of_nat (n div 10) @ [''0123456789'' ! (n mod 10)])"

declare str_of_nat.simps [simp del]

definition str_of_int :: "int \<Rightarrow> string" where
  "str_of_int i = (if i < 0 then ''-'' @ str_of_nat (nat (- i)) else str_of_nat (nat i))"

text \<open>
  A replacement field of an f-string: a string is inserted as it is, an integer in decimal.
  The text Python prints for a float or a list is not needed by any property below and is
  taken as a parameter \<open>fmt\<close>.
\<close>

fun py_format :: "(pyval \<Rightarrow> string) \<Rightarrow> pyval \<Rightarrow> string" where
  "py_format fmt (PStr s) = s"
| "py_format fmt (PInt i) = str_of_int i"
| "py_format fmt v = fmt v"

text \<open>\<^verbatim>\<open>str.isspace\<close> on the code points below 256, and \<^verbatim>\<open>str.strip()\<close>.\<close>

definition py_isspace :: "char \<Rightarrow> bool" where
  "py_isspace c =
     (let n = (of_char c :: nat)
      in (9 \<le> n \<and> n \<le> 13) \<or> (28 \<le> n \<and> n \<le> 32) \<or> n = 133 \<or> n = 160)"

definition py_lstrip :: "string \<Rightarrow> string" where
  "py_lstrip s = dropWhile py_isspace s"

definition py_rstrip :: "string \<Rightarrow> string" where
  "py_rstrip s = rev (dropWhile py_isspace (rev s))"

definition py_strip :: "string \<Rightarrow> string" where
  "py_strip s = py_rstrip (py_lstrip s)"

section \<open>RecordNormalizer: \<^verbatim>\<open>create_employee_text\<close>\<close>

definition create_employee_text :: "(pyval \<Rightarrow> string) \<Rightarrow> pydict \<Rightarrow> error + string" where
  "create_employee_text fmt employee =
     bindE (py_get employee ''skills'') (\<lambda>skills.
     bindE (py_join '', '' skills) (\<lambda>skills_text.
     bindE (py_get employee ''projects'') (\<lambda>projects.
     bindE (py_join '', '' projects) (\<lambda>projects_text.
     bindE (py_get employee ''certifications'') (\<lambda>certifications.
     bindE (py_join '', '' certifications) (\<lambda>certs_text.
     bindE (py_get employee ''name'') (\<lambda>name.
     bindE (py_get employee ''experience_years'') (\<lambda>experience_years.
     bindE (py_get employee ''department'') (\<lambda>department.
     bindE (py_get employee ''specialization'') (\<lambda>specialization.
     bindE (py_get employee ''availability'') (\<lambda>availability.
       Inr (py_strip
         (''\<newline>        Name: '' @ py_format fmt name @
          ''\<newline>        Skills: '' @ skills_text @
          ''\<newline>        Experience: '' @ py_format fmt experience_years @ '' years'' @
          ''\<newline>        Projects: '' @ projects_text @
          ''\<newline>        Department: '' @ py_format fmt department @
          ''\<newline>        Specialization: '' @ py_format fmt specialization @
          ''\<newline>        Certifications: '' @ certs_text @
          ''\<newline>        Availability: '' @ py_format fmt availability @
          ''\<newline>        '')))))))))))))"


section \<open>Embedder and vector index (external collaborators)\<close>

text \<open>
  A vector is a list of numbers; Python and C floats are modelled as real numbers, so
  rounding is ignored (the properties below only compare scores). The embedder
  \<^verbatim>\<open>SentenceTransformer.encode\<close> is a parameter \<open>enc\<close>: a function from a text
  to its vector, applied to a batch text by text.
\<close>

type_synonym vec = "real list"

record index_flat_ip =
  ix_d :: nat
  ix_xb :: "vec list"

definition fvec_norm_L2sqr :: "vec \<Rightarrow> real" where
  "fvec_norm_L2sqr v = sum_list (map (\<lambda>x. x * x) v)"

definition inner_product :: "vec \<Rightarrow> vec \<Rightarrow> real" where
  "inner_product q x = sum_list (map2 (*) q x)"

definition flt_lowest :: real where
  "flt_lowest = - 340282346638528859811704183484516925440"

text \<open>
  Modelled from the spec: the vector index. The program uses the library calls
  \<^verbatim>\<open>faiss.normalize_L2\<close>, \<^verbatim>\<open>faiss.IndexFlatIP\<close>, \<^verbatim>\<open>add\<close> and \<^verbatim>\<open>search\<close>, whose code
  is not among the sources. Following section 4.3 of the specification: a vector is
  divided by its Euclidean norm, a zero vector is left as it is; the score of an entry is
  the inner product of the normalised query with the stored vector; the results are the
  \<open>k\<close> best entries by descending score, ties in ascending insertion order; a query of
  another dimension is an error. The library returns exactly \<open>k\<close> positions: where the
  index has fewer entries, the remaining positions carry the label \<open>-1\<close> and the lowest
  float as score.
\<close>

definition normalize_L2 :: "vec list \<Rightarrow> vec list" where
  "normalize_L2 x =
     map (\<lambda>v. let nr = fvec_norm_L2sqr v
              in if nr > 0 then map (\<lambda>c. c * (1 / sqrt nr)) v else v) x"

definition index_add :: "index_flat_ip \<Rightarrow> vec list \<Rightarrow> index_flat_ip" where
  "index_add ix x = ix\<lparr>ix_xb := ix_xb ix @ x\<rparr>"

definition ranked :: "index_flat_ip \<Rightarrow> vec \<Rightarrow> (real \<times> nat) list" where
  "ranked ix q =
     sort_key (\<lambda>(s, i). - s) (zip (map (inner_product q) (ix_xb ix)) [0..<length (ix_xb ix)])"

definition index_search :: "index_flat_ip \<Rightarrow> vec \<Rightarrow> nat \<Rightarrow> error + (real list \<times> int list)" where
  "index_search ix q k =
     (if length q \<noteq> ix_d ix then Inl AssertionError
      else let hits = map (\<lambda>(s, i). (s, int i)) (take k (ranked ix q)) @
                      replicate (k - length (ix_xb ix)) (flt_lowest, - 1)
           in Inr (map fst hits, map snd hits))"

section \<open>The chatbot object\<close>

text \<open>
  \<open>heap\<close> holds the dictionaries allocated so far; a reference is a position in it.
  \<open>employees_data\<close> is the list of references to the corpus records, \<open>faiss_index\<close>
  and \<open>employee_embeddings\<close> are \<open>None\<close> until \<^verbatim>\<open>setup_embeddings\<close> has built them,
  \<open>openai_client\<close> tells whether \<^verbatim>\<open>setup_openai\<close> installed the client.
\<close>

type_synonym addr = nat

record chatbot =
  heap :: "pydict list"
  employees_data :: "addr list"
  employee_embeddings :: "vec list option"
  faiss_index :: "index_flat_ip option"
  openai_client :: bool

text \<open>
  \<^verbatim>\<open>load_employee_data\<close>: the argument is the file \<^verbatim>\<open>employees_data.json\<close>, \<open>None\<close>
  when it does not exist, otherwise the top-level object it parses to.
\<close>

definition load_employee_data :: "(string \<times> pydict list) list option \<Rightarrow> error + pydict list" where
  "load_employee_data datafile =
     (case datafile of
        None \<Rightarrow> Inr []
      | Some data \<Rightarrow>
          (case map_of data ''employees'' of
             None \<Rightarrow> Inl (KeyError ''employees'')
           | Some employees \<Rightarrow> Inr employees))"

text \<open>The truth value of \<^verbatim>\<open>os.getenv('OPENAI_API_KEY')\<close>.\<close>

fun truthy :: "string option \<Rightarrow> bool" where
  "truthy None = False"
| "truthy (Some s) = (s \<noteq> [])"

definition setup_openai :: "string option \<Rightarrow> chatbot \<Rightarrow> chatbot" where
  "setup_openai api_key self = (if truthy api_key then self\<lparr>openai_client := True\<rparr> else self)"

definition setup_embeddings ::
  "(pyval \<Rightarrow> string) \<Rightarrow> (string \<Rightarrow> vec) \<Rightarrow> chatbot \<Rightarrow> error + chatbot" where
  "setup_embeddings fmt enc self =
     (if employees_data self = [] then Inr self
      else
        bindE (mapE (\<lambda>emp. create_employee_text fmt (heap self ! emp)) (employees_data self))
          (\<lambda>employee_texts.
             let embeddings = map enc employee_texts;
                 dimension = length (hd embeddings);
                 embeddings = normalize_L2 embeddings
             in Inr (self\<lparr>employee_embeddings := Some embeddings,
                           faiss_index :=
                             Some (index_add \<lparr>ix_d = dimension, ix_xb = []\<rparr> embeddings)\<rparr>)))"

definition HRChatbot_init ::
  "(pyval \<Rightarrow> string) \<Rightarrow> (string \<Rightarrow> vec) \<Rightarrow> string option \<Rightarrow>
   (string \<times> pydict list) list option \<Rightarrow> error + chatbot" where
  "HRChatbot_init fmt enc api_key datafile =
     bindE (load_employee_data datafile) (\<lambda>employees.
       setup_embeddings fmt enc
         (setup_openai api_key
            \<lparr>heap = employees, employees_data = [0..<length employees],
             employee_embeddings = None, faiss_index = None, openai_client = False\<rparr>))"

section \<open>Retriever: \<^verbatim>\<open>search_employees\<close>\<close>

text \<open>
  The loop over \<^verbatim>\<open>zip(scores[0], indices[0])\<close>. \<^verbatim>\<open>.copy()\<close> allocates a new dictionary
  with the entries of the record; the assignment of \<^verbatim>\<open>similarity_score\<close> writes to the
  copy.
\<close>

fun collect_results ::
  "addr list \<Rightarrow> (real \<times> int) list \<Rightarrow> pydict list \<Rightarrow> addr list \<Rightarrow> error + (addr list \<times> pydict list)"
where
  "collect_results ed [] h results = Inr (results, h)"
| "collect_results ed ((score, idx) # rest) h results =
     (if idx < int (length ed) then
        bindE (py_index ed idx) (\<lambda>src.
          let employee = length h;
              h = h @ [h ! src];
              h = h[employee := AList.update ''similarity_score'' (PFloat score) (h ! employee)]
          in collect_results ed rest h (results @ [employee]))
      else collect_results ed rest h results)"

text \<open>\<^verbatim>\<open>v > 0.3\<close> for a value read from a dictionary.\<close>

fun py_gt :: "pyval \<Rightarrow> real \<Rightarrow> error + bool" where
  "py_gt (PFloat s) t = Inr (s > t)"
| "py_gt (PInt i) t = Inr (real_of_int i > t)"
| "py_gt v t = Inl TypeError"

fun filterE :: "('a \<Rightarrow> error + bool) \<Rightarrow> 'a list \<Rightarrow> error + 'a list" where
  "filterE p [] = Inr []"
| "filterE p (x # xs) =
     bindE (p x) (\<lambda>b. bindE (filterE p xs) (\<lambda>ys. Inr (if b then x # ys else ys)))"

definition above_threshold :: "pydict list \<Rightarrow> addr \<Rightarrow> error + bool" where
  "above_threshold h emp = bindE (py_get (h ! emp) ''similarity_score'') (\<lambda>v. py_gt v 0.3)"

text \<open>Lines 114 to 130 of the source: the results before the threshold is applied.\<close>

definition search_unfiltered ::
  "(string \<Rightarrow> vec) \<Rightarrow> chatbot \<Rightarrow> index_flat_ip \<Rightarrow> string \<Rightarrow> nat \<Rightarrow> error + (addr list \<times> pydict list)"
where
  "search_unfiltered enc self ix query top_k =
     (let query_embedding = normalize_L2 [enc query]
      in bindE (index_search ix (hd query_embedding) top_k) (\<lambda>(scores, indices).
           collect_results (employees_data self) (zip scores indices) (heap self) []))"

definition search_employees ::
  "(string \<Rightarrow> vec) \<Rightarrow> chatbot \<Rightarrow> string \<Rightarrow> nat \<Rightarrow> error + (addr list \<times> chatbot)" where
  "search_employees enc self query top_k =
     (case faiss_index self of
        None \<Rightarrow> Inr ([], self)
      | Some ix \<Rightarrow>
          bindE (search_unfiltered enc self ix query top_k) (\<lambda>(results, h).
          bindE (filterE (above_threshold h) results) (\<lambda>results.
            Inr (results, self\<lparr>heap := h\<rparr>))))"

text \<open>The dictionaries a list of references stands for.\<close>

definition deref :: "chatbot \<Rightarrow> addr list \<Rightarrow> pydict list" where
  "deref self rs = map (\<lambda>a. heap self ! a) rs"


section \<open>ResponseSynthesizer\<close>

abbreviation dquote :: string where
  "dquote \<equiv> [CHR 0x22]"

definition no_match_message :: string where
  "no_match_message =
     ''I couldn'' @ [CHR 0x27] @ ''t find any employees matching your criteria. Please try a different search query.''"

text \<open>The single-candidate narrative of \<^verbatim>\<open>generate_template_response\<close>.\<close>

definition single_candidate :: "(pyval \<Rightarrow> string) \<Rightarrow> string \<Rightarrow> pydict \<Rightarrow> error + string" where
  "single_candidate fmt query emp =
     bindE (py_get emp ''skills'') (\<lambda>skills.
     bindE (py_slice_to 5 skills) (\<lambda>skills.
     bindE (py_join '', '' skills) (\<lambda>skills_text.
     bindE (py_get emp ''projects'') (\<lambda>projects.
     bindE (py_join '', '' projects) (\<lambda>projects_text.
     bindE (py_get emp ''name'') (\<lambda>name.
     bindE (py_get emp ''experience_years'') (\<lambda>experience_years.
     bindE (py_get emp ''department'') (\<lambda>department.
     bindE (py_get emp ''specialization'') (\<lambda>specialization.
     bindE (py_get emp ''availability'') (\<lambda>availability.
       Inr (''Based on your query '' @ dquote @ query @ dquote @
            '', I found an excellent candidate:\<newline>\<newline>**'' @ py_format fmt name @
            ''** would be perfect for this role. They have '' @ py_format fmt experience_years @
            '' years of experience and their skills include '' @ skills_text @
            ''. \<newline>\<newline>They have worked on projects like: '' @ projects_text @
            ''\<newline>\<newline>Department: '' @ py_format fmt department @
            ''\<newline>Specialization: '' @ py_format fmt specialization @
            ''\<newline>Current availability: '' @ py_format fmt availability @
            ''\<newline>\<newline>Would you like more details about their background or see other candidates?'')))))))))))"

text \<open>One entry of the numbered list.\<close>

definition list_entry :: "(pyval \<Rightarrow> string) \<Rightarrow> nat \<Rightarrow> pydict \<Rightarrow> error + string" where
  "list_entry fmt i emp =
     bindE (py_get emp ''skills'') (\<lambda>skills.
     bindE (py_slice_to 3 skills) (\<lambda>skills.
     bindE (py_join '', '' skills) (\<lambda>skills_text.
     bindE (py_get emp ''name'') (\<lambda>name.
     bindE (py_get emp ''experience_years'') (\<lambda>experience_years.
     bindE (py_get emp ''specialization'') (\<lambda>specialization.
     bindE (py_get emp ''availability'') (\<lambda>availability.
       Inr (''**'' @ str_of_nat i @ ''. '' @ py_format fmt name @
            ''** ('' @ py_format fmt experience_years @
            '' years experience)\<newline>- Key skills: '' @ skills_text @
            ''\<newline>- Specialization: '' @ py_format fmt specialization @
            ''\<newline>- Availability: '' @ py_format fmt availability @
            ''\<newline>\<newline>''))))))))"

text \<open>The loop \<^verbatim>\<open>for i, emp in enumerate(employees[:3], 1)\<close>, appending to the response.\<close>

fun list_entries :: "(pyval \<Rightarrow> string) \<Rightarrow> nat \<Rightarrow> pydict list \<Rightarrow> string \<Rightarrow> error + string" where
  "list_entries fmt i [] response = Inr response"
| "list_entries fmt i (emp # rest) response =
     bindE (list_entry fmt i emp) (\<lambda>entry. list_entries fmt (Suc i) rest (response @ entry))"

definition generate_template_response ::
  "(pyval \<Rightarrow> string) \<Rightarrow> string \<Rightarrow> pydict list \<Rightarrow> error + string" where
  "generate_template_response fmt query employees =
     (if length employees = 1 then single_candidate fmt query (employees ! 0)
      else
        bindE (list_entries fmt 1 (take 3 employees)
                 (''Based on your query '' @ dquote @ query @ dquote @ '', I found '' @
                  str_of_nat (length employees) @ '' excellent candidates:\<newline>\<newline>''))
          (\<lambda>response.
             if length employees > 3 then
               Inr (response @ ''\<newline>I found '' @ str_of_nat (length employees - 3) @
                    '' more candidates. Would you like to see them?'')
             else Inr response))"

text \<open>The context block of one employee in the prompt of \<^verbatim>\<open>generate_openai_response\<close>.\<close>

definition context_entry :: "(pyval \<Rightarrow> string) \<Rightarrow> pydict \<Rightarrow> error + string" where
  "context_entry fmt emp =
     bindE (py_get emp ''skills'') (\<lambda>skills.
     bindE (py_join '', '' skills) (\<lambda>skills_text.
     bindE (py_get emp ''projects'') (\<lambda>projects.
     bindE (py_join '', '' projects) (\<lambda>projects_text.
     bindE (py_get emp ''name'') (\<lambda>name.
     bindE (py_get emp ''experience_years'') (\<lambda>experience_years.
     bindE (py_get emp ''department'') (\<lambda>department.
     bindE (py_get emp ''specialization'') (\<lambda>specialization.
     bindE (py_get emp ''availability'') (\<lambda>availability.
       Inr (''\<newline>                **'' @ py_format fmt name @
            ''** ('' @ py_format fmt experience_years @
            '' years experience)\<newline>                - Skills: '' @ skills_text @
            ''\<newline>                - Projects: '' @ projects_text @
            ''\<newline>                - Department: '' @ py_format fmt department @
            ''\<newline>                - Specialization: '' @ py_format fmt specialization @
            ''\<newline>                - Availability: '' @ py_format fmt availability @
            ''\<newline>\<newline>                ''))))))))))"

fun build_context :: "(pyval \<Rightarrow> string) \<Rightarrow> pydict list \<Rightarrow> string \<Rightarrow> error + string" where
  "build_context fmt [] context = Inr context"
| "build_context fmt (emp # rest) context =
     bindE (context_entry fmt emp) (\<lambda>entry. build_context fmt rest (context @ entry))"

definition build_prompt :: "string \<Rightarrow> string \<Rightarrow> string" where
  "build_prompt query context =
     ''\<newline>            You are an HR assistant helping to find the right employees for projects. '' @
     ''\<newline>            A user asked: '' @ dquote @ query @ dquote @
     ''\<newline>\<newline>            '' @ context @
     ''\<newline>\<newline>            Please provide a helpful, natural response recommending the most suitable candidates '' @
     ''\<newline>            and explaining why they would be a good fit. Be conversational and highlight their '' @
     ''\<newline>            relevant experience and skills.\<newline>            ''"

text \<open>
  The generative collaborator is a parameter \<open>llm\<close>: what
  \<^verbatim>\<open>ChatCompletion.create(...).choices[0].message.content\<close> yields for a prompt, a text or
  the exception it raised. The \<^verbatim>\<open>try\<close> block covers the construction of the prompt and the
  call; \<^verbatim>\<open>except Exception\<close> turns every exception into the template response.
\<close>

definition generate_openai_response ::
  "(pyval \<Rightarrow> string) \<Rightarrow> (string \<Rightarrow> error + string) \<Rightarrow> string \<Rightarrow> pydict list \<Rightarrow> error + string"
where
  "generate_openai_response fmt llm query employees =
     (case bindE (build_context fmt employees
                    ''Based on your query, here are the relevant employees:\<newline>\<newline>'')
             (\<lambda>context. llm (build_prompt query context)) of
        Inr content \<Rightarrow> Inr content
      | Inl e \<Rightarrow> generate_template_response fmt query employees)"

definition generate_response ::
  "(pyval \<Rightarrow> string) \<Rightarrow> (string \<Rightarrow> error + string) \<Rightarrow> string option \<Rightarrow> chatbot \<Rightarrow>
   string \<Rightarrow> pydict list \<Rightarrow> error + string" where
  "generate_response fmt llm api_key self query relevant_employees =
     (if relevant_employees = [] then Inr no_match_message
      else if openai_client self \<and> truthy api_key then
        generate_openai_response fmt llm query relevant_employees
      else generate_template_response fmt query relevant_employees)"

section \<open>The query operation: the \<^verbatim>\<open>/chat\<close> endpoint\<close>

record chat_response =
  response :: string
  candidates :: "pydict list"
  session_id :: string

definition chat_with_bot ::
  "(pyval \<Rightarrow> string) \<Rightarrow> (string \<Rightarrow> vec) \<Rightarrow> (string \<Rightarrow> error + string) \<Rightarrow> string option \<Rightarrow>
   chatbot \<Rightarrow> string \<Rightarrow> string option \<Rightarrow> error + (chat_response \<times> chatbot)" where
  "chat_with_bot fmt enc llm api_key self message sid =
     (case
        bindE (search_employees enc self message 5) (\<lambda>(relevant_employees, self).
        bindE (generate_response fmt llm api_key self message (deref self relevant_employees))
          (\<lambda>response_text.
             Inr (\<lparr>response = response_text,
                   candidates = deref self relevant_employees,
                   session_id = (case sid of
                                   None \<Rightarrow> ''default_session''
                                 | Some s \<Rightarrow> if s = [] then ''default_session'' else s)\<rparr>,
                  self)))
      of Inl e \<Rightarrow> Inl (HTTPException 500 e)
       | Inr r \<Rightarrow> Inr r)"

section \<open>Vocabulary of the properties\<close>

text \<open>
  The position a Python index denotes in a list of length \<open>n\<close>, and a record with the
  score written into it.
\<close>

definition pyidx :: "nat \<Rightarrow> int \<Rightarrow> nat" where
  "pyidx n i = nat (if i < 0 then int n + i else i)"

definition with_score :: "real \<Rightarrow> pydict \<Rightarrow> pydict" where
  "with_score s r = AList.update ''similarity_score'' (PFloat s) r"

text \<open>
  A chatbot whose index has been built: the corpus is not empty, every reference of the
  corpus points into the heap, and the index holds one vector per record.
\<close>

definition built :: "chatbot \<Rightarrow> bool" where
  "built self =
     (employees_data self \<noteq> [] \<and>
      (\<forall>a \<in> set (employees_data self). a < length (heap self)) \<and>
      (case faiss_index self of
         None \<Rightarrow> False
       | Some ix \<Rightarrow> length (ix_xb ix) = length (employees_data self)))"

definition query_vector :: "(string \<Rightarrow> vec) \<Rightarrow> string \<Rightarrow> vec" where
  "query_vector enc query = hd (normalize_L2 [enc query])"

text \<open>
  What the index returns for \<open>k\<close> (with the padding), the hits that pass the threshold, and
  the candidate a hit \<open>(s, i)\<close> stands for: record \<open>i\<close> of the corpus with score \<open>s\<close>.
\<close>

definition all_hits :: "index_flat_ip \<Rightarrow> vec \<Rightarrow> nat \<Rightarrow> (real \<times> int) list" where
  "all_hits ix q k =
     map (\<lambda>(s, i). (s, int i)) (take k (ranked ix q)) @
     replicate (k - length (ix_xb ix)) (flt_lowest, - 1)"

definition surviving :: "index_flat_ip \<Rightarrow> vec \<Rightarrow> nat \<Rightarrow> (real \<times> nat) list" where
  "surviving ix q k = filter (\<lambda>(s, i). s > 0.3) (take k (ranked ix q))"

definition candidate :: "chatbot \<Rightarrow> real \<times> nat \<Rightarrow> pydict" where
  "candidate self = (\<lambda>(s, i). with_score s (heap self ! (employees_data self ! i)))"

definition score_above :: "real \<Rightarrow> pydict \<Rightarrow> bool" where
  "score_above t d =
     (case map_of d ''similarity_score'' of Some (PFloat s) \<Rightarrow> s > t | _ \<Rightarrow> False)"

definition score_of :: "pydict \<Rightarrow> real" where
  "score_of d = (case map_of d ''similarity_score'' of Some (PFloat s) \<Rightarrow> s | _ \<Rightarrow> 0)"

text \<open>Descending score, ties in ascending insertion order.\<close>

definition better :: "real \<times> nat \<Rightarrow> real \<times> nat \<Rightarrow> bool" where
  "better a b = (fst a > fst b \<or> (fst a = fst b \<and> snd a < snd b))"

subsection \<open>A small corpus\<close>

definition ann :: pydict where
  "ann = [(''id'', PInt 1), (''name'', PStr ''Ann''),
          (''skills'', PList [PStr ''Python'', PStr ''SQL'']),
          (''experience_years'', PInt 5),
          (''projects'', PList [PStr ''Billing'']),
          (''department'', PStr ''Engineering''),
          (''specialization'', PStr ''Backend''),
          (''certifications'', PList [PStr ''AWS'']),
          (''availability'', PStr ''available'')]"

definition bob :: pydict where
  "bob = [(''id'', PInt 2), (''name'', PStr ''Bob''),
          (''skills'', PList [PStr ''Figma'']),
          (''experience_years'', PInt 12),
          (''projects'', PList []),
          (''department'', PStr ''Design''),
          (''specialization'', PStr ''UX''),
          (''certifications'', PList []),
          (''availability'', PStr ''busy'')]"

definition example_enc :: "string \<Rightarrow> vec" where
  "example_enc t =
     (if t = ''python'' then [1, 0] else if take 9 t = ''Name: Ann'' then [3, 4] else [0, 1])"

definition example_file :: "(string \<times> pydict list) list option" where
  "example_file = Some [(''employees'', [ann, bob])]"

definition example_index :: index_flat_ip where
  "example_index = \<lparr>ix_d = 2, ix_xb = [[3 / 5, 4 / 5], [0, 1]]\<rparr>"

definition example_bot :: chatbot where
  "example_bot = \<lparr>heap = [ann, bob], employees_data = [0, 1],
                   employee_embeddings = Some [[3 / 5, 4 / 5], [0, 1]],
                   faiss_index = Some example_index, openai_client = False\<rparr>"

text \<open>
  A run of the program: the chatbot is constructed from the data file and answers one
  query; the result is the ranked list of candidates (the dictionaries themselves).
\<close>

definition ranked_candidates ::
  "(pyval \<Rightarrow> string) \<Rightarrow> (string \<Rightarrow> vec) \<Rightarrow> string option \<Rightarrow>
   (string \<times> pydict list) list option \<Rightarrow> string \<Rightarrow> nat \<Rightarrow> error + pydict list" where
  "ranked_candidates fmt enc api_key datafile query top_k =
     bindE (HRChatbot_init fmt enc api_key datafile) (\<lambda>self.
     bindE (search_employees enc self query top_k) (\<lambda>(results, self').
       Inr (deref self' results)))"

definition example_fmt :: "pyval \<Rightarrow> string" where
  "example_fmt v = ''<value>''"

text \<open>
  The fields a record of the corpus has, with their types (section 3 of the
  specification), and the values of the fields of such a record.
\<close>

fun is_str :: "pyval \<Rightarrow> bool" where
  "is_str (PStr s) = True"
| "is_str v = False"

fun str_val :: "pyval \<Rightarrow> string" where
  "str_val (PStr s) = s"
| "str_val v = []"

definition has_str :: "pydict \<Rightarrow> string \<Rightarrow> bool" where
  "has_str r k = (case map_of r k of Some (PStr s) \<Rightarrow> True | _ \<Rightarrow> False)"

definition has_int :: "pydict \<Rightarrow> string \<Rightarrow> bool" where
  "has_int r k = (case map_of r k of Some (PInt i) \<Rightarrow> True | _ \<Rightarrow> False)"

definition has_list :: "pydict \<Rightarrow> string \<Rightarrow> bool" where
  "has_list r k = (case map_of r k of Some (PList vs) \<Rightarrow> list_all is_str vs | _ \<Rightarrow> False)"

definition str_field :: "pydict \<Rightarrow> string \<Rightarrow> string" where
  "str_field r k = (case map_of r k of Some (PStr s) \<Rightarrow> s | _ \<Rightarrow> [])"

definition int_field :: "pydict \<Rightarrow> string \<Rightarrow> int" where
  "int_field r k = (case map_of r k of Some (PInt i) \<Rightarrow> i | _ \<Rightarrow> 0)"

definition list_field :: "pydict \<Rightarrow> string \<Rightarrow> string list" where
  "list_field r k = (case map_of r k of Some (PList vs) \<Rightarrow> map str_val vs | _ \<Rightarrow> [])"

definition well_formed :: "pydict \<Rightarrow> bool" where
  "well_formed r =
     (has_str r ''name'' \<and> has_list r ''skills'' \<and> has_int r ''experience_years'' \<and>
      has_list r ''projects'' \<and> has_str r ''department'' \<and> has_str r ''specialization'' \<and>
      has_list r ''certifications'' \<and> has_str r ''availability'')"

definition normalized_fields :: "string list" where
  "normalized_fields =
     [''name'', ''skills'', ''experience_years'', ''projects'', ''department'',
      ''specialization'', ''certifications'', ''availability'']"

text \<open>The entry of candidate \<open>c\<close> with number \<open>i\<close> in the numbered list.\<close>

definition entry_text :: "nat \<Rightarrow> pydict \<Rightarrow> string" where
  "entry_text i c =
     ''**'' @ str_of_nat i @ ''. '' @ str_field c ''name'' @
     ''** ('' @ str_of_int (int_field c ''experience_years'') @
     '' years experience)\<newline>- Key skills: '' @ join '', '' (take 3 (list_field c ''skills'')) @
     ''\<newline>- Specialization: '' @ str_field c ''specialization'' @
     ''\<newline>- Availability: '' @ str_field c ''availability'' @
     ''\<newline>\<newline>''"

text \<open>The text of a record with the fields of the schema.\<close>

definition normal_text :: "pydict \<Rightarrow> string" where
  "normal_text r =
     ''Name: '' @ str_field r ''name'' @
     ''\<newline>        Skills: '' @ join '', '' (list_field r ''skills'') @
     ''\<newline>        Experience: '' @ str_of_int (int_field r ''experience_years'') @ '' years'' @
     ''\<newline>        Projects: '' @ join '', '' (list_field r ''projects'') @
     ''\<newline>        Department: '' @ str_field r ''department'' @
     ''\<newline>        Specialization: '' @ str_field r ''specialization'' @
     ''\<newline>        Certifications: '' @ join '', '' (list_field r ''certifications'') @
     ''\<newline>        Availability:'' @ py_rstrip ('' '' @ str_field r ''availability'')"

text \<open>
  A record that \<^verbatim>\<open>create_employee_text\<close> accepts: every record of a built corpus is one,
  since the constructor normalises each record before it builds the index.
\<close>

definition normalizes :: "(pyval \<Rightarrow> string) \<Rightarrow> pydict \<Rightarrow> bool" where
  "normalizes fmt c = (case create_employee_text fmt c of Inl e \<Rightarrow> False | Inr t \<Rightarrow> True)"

text \<open>
  A collaborator that answers short prompts and times out on the others, so on every
  prompt the synthesizer builds.
\<close>

definition example_llm :: "string \<Rightarrow> error + string" where
  "example_llm prompt =
     (if length prompt < 10 then Inr ''ok'' else Inl (CollaboratorError ''timeout''))"

section \<open>Verified properties\<close>

subsection \<open>The loop and the filter of \<^verbatim>\<open>search_employees\<close>\<close>

lemma py_index_valid:
  "- int (length xs) \<le> i \<Longrightarrow> i < int (length xs) \<Longrightarrow> py_index xs i = Inr (xs ! pyidx (length xs) i)"
  by (auto simp: py_index_def pyidx_def)

lemma pyidx_less: "- int n \<le> i \<Longrightarrow> i < int n \<Longrightarrow> pyidx n i < n"
  by (auto simp: pyidx_def)

lemma pyidx_nat: "pyidx n (int i) = i"
  by (simp add: pyidx_def)

text \<open>
  The loop appends one copy per hit to the heap and returns their references; the
  records it reads are below \<open>n\<close>, so the copies it has already made do not disturb it.
\<close>

lemma collect_results_eq:
  assumes "\<forall>(s, i) \<in> set hits. - int (length ed) \<le> i \<and> i < int (length ed)"
    and "\<forall>a \<in> set ed. a < n" and "n \<le> length h"
  shows "collect_results ed hits h res =
           Inr (res @ [length h ..< length h + length hits],
                h @ map (\<lambda>(s, i). with_score s (h ! (ed ! pyidx (length ed) i))) hits)"
  using assms
proof (induction hits arbitrary: h res)
  case Nil
  then show ?case by simp
next
  case (Cons p hits)
  obtain s i where p: "p = (s, i)" by (cases p)
  from Cons.prems p have bi: "- int (length ed) \<le> i" "i < int (length ed)" by auto
  let ?src = "ed ! pyidx (length ed) i"
  let ?h1 = "h @ [with_score s (h ! ?src)]"
  have step: "(h @ [h ! ?src])[length h := AList.update ''similarity_score'' (PFloat s) ((h @ [h ! ?src]) ! length h)] = ?h1"
    by (simp add: with_score_def)
  have rest: "\<forall>(s, i) \<in> set hits. - int (length ed) \<le> i \<and> i < int (length ed)"
    using Cons.prems(1) by auto
  have n1: "n \<le> length ?h1" using Cons.prems(3) by simp
  have same: "map (\<lambda>(s, i). with_score s (?h1 ! (ed ! pyidx (length ed) i))) hits =
              map (\<lambda>(s, i). with_score s (h ! (ed ! pyidx (length ed) i))) hits"
  proof (rule map_cong[OF refl])
    fix x assume x: "x \<in> set hits"
    obtain t j where xj: "x = (t, j)" by (cases x)
    with x rest have "- int (length ed) \<le> j" "j < int (length ed)" by auto
    then have "pyidx (length ed) j < length ed" by (rule pyidx_less)
    then have "ed ! pyidx (length ed) j \<in> set ed" by simp
    with Cons.prems(2,3) have "ed ! pyidx (length ed) j < length h" by fastforce
    then show "(case x of (s, i) \<Rightarrow> with_score s (?h1 ! (ed ! pyidx (length ed) i))) =
               (case x of (s, i) \<Rightarrow> with_score s (h ! (ed ! pyidx (length ed) i)))"
      by (simp add: xj nth_append)
  qed
  have ih: "collect_results ed hits ?h1 (res @ [length h]) =
              Inr ((res @ [length h]) @ [length ?h1 ..< length ?h1 + length hits],
                   ?h1 @ map (\<lambda>(s, i). with_score s (?h1 ! (ed ! pyidx (length ed) i))) hits)"
    by (rule Cons.IH[OF rest Cons.prems(2) n1])
  show ?case
    unfolding p
    apply (simp only: collect_results.simps bi if_True py_index_valid[OF bi] bindE.simps Let_def step ih same)
    apply (simp add: upt_rec)
    done
qed

lemma filterE_total:
  "\<forall>x \<in> set xs. p x = Inr (q x) \<Longrightarrow> filterE p xs = Inr (filter q xs)"
  by (induction xs) auto

lemma set_ranked:
  "set (ranked ix q) = set (zip (map (inner_product q) (ix_xb ix)) [0..<length (ix_xb ix)])"
  by (simp add: ranked_def)

lemma ranked_index_less: "(s, i) \<in> set (ranked ix q) \<Longrightarrow> i < length (ix_xb ix)"
  by (auto simp: set_ranked dest: set_zip_rightD)

lemma length_ranked: "length (ranked ix q) = length (ix_xb ix)"
  by (simp add: ranked_def)

lemma index_search_eq:
  "index_search ix q k =
     (if length q \<noteq> ix_d ix then Inl AssertionError
      else Inr (map fst (all_hits ix q k), map snd (all_hits ix q k)))"
  by (simp add: index_search_def all_hits_def Let_def)

lemma zip_fst_snd: "zip (map fst xs) (map snd xs) = xs"
  by (induction xs) auto

lemma all_hits_valid:
  assumes "length (ix_xb ix) = n" "0 < n"
  shows "\<forall>(s, i) \<in> set (all_hits ix q k). - int n \<le> i \<and> i < int n"
  using assms by (auto simp: all_hits_def Suc_le_eq dest!: in_set_takeD ranked_index_less)

lemma length_all_hits: "length (all_hits ix q k) = k"
  by (auto simp: all_hits_def length_ranked)

lemma search_unfiltered_built:
  assumes b: "built self" and ix: "faiss_index self = Some ix"
    and d: "length (enc query) = ix_d ix"
  shows "search_unfiltered enc self ix query k =
           Inr ([length (heap self) ..< length (heap self) + k],
                heap self @
                map (\<lambda>(s, i). with_score s
                        (heap self ! (employees_data self ! pyidx (length (employees_data self)) i)))
                  (all_hits ix (query_vector enc query) k))"
proof -
  let ?ed = "employees_data self"
  from b ix have n: "length (ix_xb ix) = length ?ed" and pos: "0 < length ?ed"
    and addr: "\<forall>a \<in> set ?ed. a < length (heap self)"
    by (auto simp: built_def)
  have lq: "length (query_vector enc query) = ix_d ix"
    using d by (simp add: query_vector_def normalize_L2_def Let_def)
  have valid: "\<forall>(s, i) \<in> set (all_hits ix (query_vector enc query) k).
                 - int (length ?ed) \<le> i \<and> i < int (length ?ed)"
    by (rule all_hits_valid[OF n pos])
  show ?thesis
    unfolding search_unfiltered_def Let_def
    apply (simp only: query_vector_def[symmetric] index_search_eq lq)
    apply (simp add: zip_fst_snd collect_results_eq[OF valid addr order_refl] length_all_hits)
    done
qed

lemma score_above_with_score: "score_above t (with_score s r) = (s > t)"
  by (simp add: score_above_def with_score_def update_conv')

lemma above_threshold_with_score:
  "h ! a = with_score s r \<Longrightarrow> above_threshold h a = Inr (score_above 0.3 (h ! a))"
  by (simp add: above_threshold_def py_get_def with_score_def update_conv' score_above_def)

lemma map_nth_append_upt: "map ((!) (h @ ys)) [length h ..< length h + length ys] = ys"
  by (rule nth_equalityI) (auto simp: nth_append)

lemma filter_all_hits:
  "filter (\<lambda>(s, i). s > 0.3) (all_hits ix q k) = map (\<lambda>(s, i). (s, int i)) (surviving ix q k)"
proof -
  have pad: "filter (\<lambda>(s, i). s > 0.3) (replicate m (flt_lowest, - 1 :: int)) = []" for m
    by (simp add: flt_lowest_def)
  have m: "filter (\<lambda>(s, i :: int). s > 0.3) (map (\<lambda>(s, i). (s, int i)) xs) =
           map (\<lambda>(s, i). (s, int i)) (filter (\<lambda>(s, i). s > 0.3) xs)"
    for xs :: "(real \<times> nat) list"
    by (induction xs) auto
  show ?thesis
    unfolding all_hits_def surviving_def filter_append pad m by (rule append_Nil2)
qed

text \<open>
  The search on a built index with a query of the index's dimension: it returns, the heap
  grows by the copies, and the candidates are the hits above the threshold.
\<close>

lemma search_employees_built:
  assumes b: "built self" and ix: "faiss_index self = Some ix"
    and d: "length (enc query) = ix_d ix"
  shows "\<exists>results self'.
           search_employees enc self query k = Inr (results, self') \<and>
           self' = self\<lparr>heap := heap self @
                     map (\<lambda>(s, i). with_score s
                            (heap self ! (employees_data self ! pyidx (length (employees_data self)) i)))
                       (all_hits ix (query_vector enc query) k)\<rparr> \<and>
           results = filter (\<lambda>a. score_above 0.3 (heap self' ! a))
                       [length (heap self) ..< length (heap self) + k] \<and>
           deref self' results = map (candidate self) (surviving ix (query_vector enc query) k)"
proof -
  let ?mk = "\<lambda>(s, i). with_score s
               (heap self ! (employees_data self ! pyidx (length (employees_data self)) i))"
  let ?hits = "all_hits ix (query_vector enc query) k"
  let ?h = "heap self @ map ?mk ?hits"
  let ?addrs = "[length (heap self) ..< length (heap self) + k]"
  have un: "search_unfiltered enc self ix query k = Inr (?addrs, ?h)"
    using b ix d by (rule search_unfiltered_built)
  have objs: "map ((!) ?h) ?addrs = map ?mk ?hits"
    using map_nth_append_upt[of "heap self" "map ?mk ?hits"] by (simp add: length_all_hits)
  have thr: "\<forall>a \<in> set ?addrs. above_threshold ?h a = Inr (score_above 0.3 (?h ! a))"
  proof
    fix a assume a: "a \<in> set ?addrs"
    then have "?h ! a \<in> set (map ((!) ?h) ?addrs)" by (simp only: set_map image_eqI[OF refl])
    then have "?h ! a \<in> set (map ?mk ?hits)" by (simp only: objs)
    then obtain s r where "?h ! a = with_score s r" by auto
    then show "above_threshold ?h a = Inr (score_above 0.3 (?h ! a))"
      by (rule above_threshold_with_score)
  qed
  have fil: "filterE (above_threshold ?h) ?addrs = Inr (filter (\<lambda>a. score_above 0.3 (?h ! a)) ?addrs)"
    by (rule filterE_total[OF thr])
  have "map ((!) ?h) (filter (\<lambda>a. score_above 0.3 (?h ! a)) ?addrs) =
          filter (score_above 0.3) (map ((!) ?h) ?addrs)"
    by (simp add: filter_map comp_def)
  also have "\<dots> = filter (score_above 0.3) (map ?mk ?hits)" by (simp only: objs)
  also have "\<dots> = map ?mk (filter (\<lambda>(s, i). s > 0.3) ?hits)"
    by (simp add: filter_map comp_def split_def score_above_with_score)
  also have "\<dots> = map ?mk (map (\<lambda>(s, i). (s, int i)) (surviving ix (query_vector enc query) k))"
    by (simp only: filter_all_hits)
  also have "\<dots> = map (candidate self) (surviving ix (query_vector enc query) k)"
    by (simp add: candidate_def split_def pyidx_nat comp_def)
  finally have der: "map ((!) ?h) (filter (\<lambda>a. score_above 0.3 (?h ! a)) ?addrs) =
      map (candidate self) (surviving ix (query_vector enc query) k)" .
  show ?thesis
    using der by (simp add: search_employees_def ix un fil deref_def)
qed

lemma deref_unfiltered:
  assumes "built self" "faiss_index self = Some ix" "length (enc query) = ix_d ix"
    and "search_employees enc self query k = Inr (results, self')"
  shows "search_unfiltered enc self ix query k =
           Inr ([length (heap self) ..< length (heap self) + k], heap self')"
    and "results = filter (\<lambda>a. score_above 0.3 (heap self' ! a))
                     [length (heap self) ..< length (heap self) + k]"
  using search_employees_built[where enc=enc and query=query and k=k, OF assms(1-3)]
    search_unfiltered_built[where enc=enc and query=query and k=k, OF assms(1-3)] assms(4)
  by auto

subsection \<open>The order of the hits\<close>

lemma sorted_wrt_better_insort:
  assumes "sorted_wrt better ys" and "\<forall>y \<in> set ys. snd x < snd y"
  shows "sorted_wrt better (insort_key (\<lambda>(s, i). - s) x ys)"
  using assms
proof (induction ys)
  case Nil
  then show ?case by simp
next
  case (Cons y ys)
  then show ?case
    by (auto simp: better_def set_insort_key split_def)
qed

lemma sorted_wrt_better_sort:
  "sorted_wrt (\<lambda>a b. snd a < snd b) xs \<Longrightarrow> sorted_wrt better (sort_key (\<lambda>(s, i). - s) xs)"
proof (induction xs)
  case Nil
  then show ?case by simp
next
  case (Cons x xs)
  then show ?case
    by (auto intro!: sorted_wrt_better_insort)
qed

lemma sorted_wrt_snd_zip_upt: "sorted_wrt (\<lambda>a b. snd a < snd b) (zip xs [m..<m + length xs])"
proof (induction xs arbitrary: m)
  case Nil
  then show ?case by simp
next
  case (Cons x xs)
  have "[m..<m + length (x # xs)] = m # [Suc m..<Suc m + length xs]"
    by (simp add: upt_rec)
  moreover have "\<forall>p \<in> set (zip xs [Suc m..<Suc m + length xs]). m < snd p"
  proof
    fix p assume "p \<in> set (zip xs [Suc m..<Suc m + length xs])"
    then have "snd p \<in> set [Suc m..<Suc m + length xs]"
      by (metis set_zip_rightD prod.collapse)
    then show "m < snd p" by (simp only: set_upt atLeastLessThan_iff Suc_le_eq)
  qed
  ultimately show ?case using Cons.IH[of "Suc m"] by simp
qed

lemma sorted_ranked: "sorted_wrt better (ranked ix q)"
  unfolding ranked_def
  using sorted_wrt_snd_zip_upt[of "map (inner_product q) (ix_xb ix)" 0]
  by (auto intro: sorted_wrt_better_sort)

lemma sorted_surviving: "sorted_wrt better (surviving ix q k)"
  unfolding surviving_def
  by (intro sorted_wrt_filter sorted_wrt_take sorted_ranked)

lemma candidate_score: "map_of (candidate self (s, i)) ''similarity_score'' = Some (PFloat s)"
  by (simp add: candidate_def with_score_def update_conv')

lemma score_of_candidate: "score_of (candidate self (s, i)) = s"
  by (simp add: score_of_def candidate_score)

lemma surviving_above: "(s, i) \<in> set (surviving ix q k) \<Longrightarrow> s > 0.3"
  by (auto simp: surviving_def)

lemma surviving_index: "(s, i) \<in> set (surviving ix q k) \<Longrightarrow> i < length (ix_xb ix)"
  by (auto simp: surviving_def dest!: in_set_takeD ranked_index_less)

lemma sorted_scores:
  assumes "sorted_wrt better hits"
  shows "sorted_wrt (\<ge>) (map (score_of \<circ> candidate self) hits)"
proof -
  from assms have "sorted_wrt (\<lambda>a b. fst a \<ge> fst b) hits"
    by (rule sorted_wrt_mono_rel[rotated]) (auto simp: better_def)
  then show ?thesis
    by (simp add: sorted_wrt_map comp_def split_def
        score_of_candidate[of self "fst x" "snd x" for x, simplified])
qed



lemma built_example: "built example_bot"
  by (simp add: built_def example_bot_def example_index_def)

lemma index_example: "faiss_index example_bot = Some example_index"
  by (simp add: example_bot_def)

lemma dim_example: "length (example_enc ''python'') = ix_d example_index"
  by (simp add: example_enc_def example_index_def)

subsection \<open>The threshold\<close>

text \<open>
  Claim C1. On a built index, \<^verbatim>\<open>search_employees\<close> returns, every candidate it returns
  carries a \<^verbatim>\<open>similarity_score\<close> strictly greater than 0.3, and the returned list is the
  list of the unfiltered results with the candidates at or below the threshold removed:
  the order is kept, and the scores are non-increasing.
\<close>

theorem search_employees_above_threshold:
  assumes "built self" and "faiss_index self = Some ix" and "length (enc query) = ix_d ix"
  shows "\<exists>results self' unfiltered.
           search_employees enc self query top_k = Inr (results, self') \<and>
           (\<forall>emp \<in> set (deref self' results).
              \<exists>s. map_of emp ''similarity_score'' = Some (PFloat s) \<and> s > 0.3) \<and>
           search_unfiltered enc self ix query top_k = Inr (unfiltered, heap self') \<and>
           deref self' results = filter (score_above 0.3) (deref self' unfiltered) \<and>
           sorted_wrt (\<ge>) (map score_of (deref self' results))"
proof -
  from search_employees_built[where enc=enc and query=query and k=top_k, OF assms]
  obtain results self' where
    s: "search_employees enc self query top_k = Inr (results, self')"
    and d: "deref self' results = map (candidate self) (surviving ix (query_vector enc query) top_k)"
    by blast
  let ?addrs = "[length (heap self) ..< length (heap self) + top_k]"
  from deref_unfiltered[where enc=enc and query=query, OF assms s] have
    u: "search_unfiltered enc self ix query top_k = Inr (?addrs, heap self')"
    and r: "results = filter (\<lambda>a. score_above 0.3 (heap self' ! a)) ?addrs"
    by auto
  have above: "\<forall>emp \<in> set (deref self' results).
                 \<exists>s. map_of emp ''similarity_score'' = Some (PFloat s) \<and> s > 0.3"
    unfolding d using surviving_above candidate_score by fastforce
  have f: "deref self' results = filter (score_above 0.3) (deref self' ?addrs)"
    unfolding r by (simp add: deref_def filter_map comp_def)
  have "sorted_wrt (\<ge>) (map (score_of \<circ> candidate self) (surviving ix (query_vector enc query) top_k))"
    by (rule sorted_scores[OF sorted_surviving])
  then have so: "sorted_wrt (\<ge>) (map score_of (deref self' results))"
    by (simp add: d)
  from s above u f so show ?thesis by blast
qed

theorem search_employees_above_threshold_witness:
  "built example_bot \<and> faiss_index example_bot = Some example_index \<and>
   length (example_enc ''python'') = ix_d example_index \<and>
   (\<exists>results self' unfiltered.
      search_employees example_enc example_bot ''python'' 5 = Inr (results, self') \<and>
      (\<forall>emp \<in> set (deref self' results).
         \<exists>s. map_of emp ''similarity_score'' = Some (PFloat s) \<and> s > 0.3) \<and>
      search_unfiltered example_enc example_bot example_index ''python'' 5 =
        Inr (unfiltered, heap self') \<and>
      deref self' results = filter (score_above 0.3) (deref self' unfiltered) \<and>
      sorted_wrt (\<ge>) (map score_of (deref self' results)))"
  using search_employees_above_threshold[where enc=example_enc and query="''python''" and top_k=5,
      OF built_example index_example dim_example]
    built_example index_example dim_example
  by simp

subsection \<open>Every entry, when \<open>k\<close> is large\<close>




subsection \<open>The order of the results\<close>





subsection \<open>What the search leaves unchanged\<close>





subsection \<open>Determinism\<close>

lemma setup_embeddings_client:
  "setup_embeddings fmt enc (self\<lparr>openai_client := c\<rparr>) =
     (case setup_embeddings fmt enc self of Inl e \<Rightarrow> Inl e | Inr b \<Rightarrow> Inr (b\<lparr>openai_client := c\<rparr>))"
  by (cases "mapE (\<lambda>emp. create_employee_text fmt (heap self ! emp)) (employees_data self)")
     (simp_all add: setup_embeddings_def Let_def)

lemma init_client:
  "HRChatbot_init fmt enc api_key datafile =
     (case HRChatbot_init fmt enc None datafile of
        Inl e \<Rightarrow> Inl e
      | Inr b \<Rightarrow> Inr (b\<lparr>openai_client := truthy api_key\<rparr>))"
proof (cases "load_employee_data datafile")
  case (Inl e)
  then show ?thesis by (simp add: HRChatbot_init_def)
next
  case (Inr employees)
  let ?b = "\<lparr>heap = employees, employees_data = [0..<length employees],
             employee_embeddings = None, faiss_index = None, openai_client = False\<rparr>"
  have "setup_openai api_key ?b = ?b\<lparr>openai_client := truthy api_key\<rparr>"
    by (simp add: setup_openai_def)
  moreover have "setup_openai None ?b = ?b" by (simp add: setup_openai_def)
  ultimately show ?thesis
    using setup_embeddings_client[where fmt=fmt and enc=enc and self="?b" and c="truthy api_key"]
    by (simp add: HRChatbot_init_def Inr split: sum.splits)
qed

lemma search_employees_client:
  "search_employees enc (self\<lparr>openai_client := c\<rparr>) query k =
     (case search_employees enc self query k of
        Inl e \<Rightarrow> Inl e
      | Inr (r, b) \<Rightarrow> Inr (r, b\<lparr>openai_client := c\<rparr>))"
proof (cases "faiss_index self")
  case None
  then show ?thesis by (simp add: search_employees_def)
next
  case (Some ix)
  have u: "search_unfiltered enc (self\<lparr>openai_client := c\<rparr>) ix query k =
           search_unfiltered enc self ix query k"
    by (simp add: search_unfiltered_def)
  show ?thesis
  proof (cases "search_unfiltered enc self ix query k")
    case (Inl e)
    then show ?thesis by (simp add: search_employees_def Some u)
  next
    case (Inr p)
    obtain results h where p: "p = (results, h)" by (cases p)
    show ?thesis
      by (cases "filterE (above_threshold h) results")
         (simp_all add: search_employees_def Some u Inr p)
  qed
qed

lemma deref_client: "deref (b\<lparr>openai_client := c\<rparr>) r = deref b r"
  by (simp add: deref_def)

lemma ranked_candidates_key:
  "ranked_candidates fmt enc api_key datafile query k = ranked_candidates fmt enc None datafile query k"
proof (cases "HRChatbot_init fmt enc None datafile")
  case (Inl e)
  then show ?thesis
    by (simp add: ranked_candidates_def init_client[where api_key=api_key])
next
  case (Inr b)
  show ?thesis
  proof (cases "search_employees enc b query k")
    case (Inl e)
    with Inr show ?thesis
      by (simp add: ranked_candidates_def init_client[where api_key=api_key] search_employees_client)
  next
    case (Inr p)
    obtain r b' where "p = (r, b')" by (cases p)
    with Inr \<open>HRChatbot_init fmt enc None datafile = Inr b\<close> show ?thesis
      by (simp add: ranked_candidates_def init_client[where api_key=api_key] search_employees_client
          deref_client)
  qed
qed

lemma built_after_search:
  assumes "built self" "faiss_index self = Some ix"
  shows "built (self\<lparr>heap := heap self @ extra\<rparr>)"
  using assms by (auto simp: built_def)

lemma candidate_after_search:
  assumes "built self"
  shows "i < length (employees_data self) \<Longrightarrow>
         candidate (self\<lparr>heap := heap self @ extra\<rparr>) (s, i) = candidate self (s, i)"
  using assms by (auto simp: built_def candidate_def nth_append)

text \<open>
  Claim C8. The embedder is a function, so it is deterministic. Two runs that construct
  the chatbot from the same data file and ask the same query with the same \<open>top_k\<close>
  end in the same way, with the same ranked list of candidates, whatever API key each run
  finds in its environment. Within one process the list does not depend on the queries
  answered before: on a built index, the query gives the same candidates after another
  search as it gives at once.
\<close>

theorem search_employees_deterministic:
  assumes "built self" and "faiss_index self = Some ix"
    and "length (enc query0) = ix_d ix" and "length (enc query) = ix_d ix"
  shows "ranked_candidates fmt enc key1 datafile query top_k =
           ranked_candidates fmt enc key2 datafile query top_k \<and>
         (\<exists>r0 self0 r1 self1 r2 self2.
            search_employees enc self query0 k0 = Inr (r0, self0) \<and>
            search_employees enc self0 query top_k = Inr (r1, self1) \<and>
            search_employees enc self query top_k = Inr (r2, self2) \<and>
            deref self1 r1 = deref self2 r2)"
proof -
  let ?hits = "surviving ix (query_vector enc query) top_k"
  from search_employees_built[where enc=enc and query=query0 and k=k0, OF assms(1-3)]
  obtain r0 self0 extra where
    s0: "search_employees enc self query0 k0 = Inr (r0, self0)"
    and st0: "self0 = self\<lparr>heap := heap self @ extra\<rparr>"
    by blast
  have b0: "built self0" unfolding st0 by (rule built_after_search[OF assms(1,2)])
  have i0: "faiss_index self0 = Some ix" by (simp add: st0 assms(2))
  from search_employees_built[where enc=enc and query=query and k=top_k, OF b0 i0 assms(4)]
  obtain r1 self1 where
    s1: "search_employees enc self0 query top_k = Inr (r1, self1)"
    and d1: "deref self1 r1 = map (candidate self0) ?hits"
    by blast
  from search_employees_built[where enc=enc and query=query and k=top_k, OF assms(1,2,4)]
  obtain r2 self2 where
    s2: "search_employees enc self query top_k = Inr (r2, self2)"
    and d2: "deref self2 r2 = map (candidate self) ?hits"
    by blast
  from assms(1,2) have n: "length (ix_xb ix) = length (employees_data self)"
    by (auto simp: built_def)
  have "map (candidate self0) ?hits = map (candidate self) ?hits"
  proof (rule map_cong[OF refl])
    fix x assume x: "x \<in> set ?hits"
    obtain s i where xi: "x = (s, i)" by (cases x)
    with x have "i < length (employees_data self)"
      using surviving_index[of s i ix "query_vector enc query" top_k] n by simp
    then show "candidate self0 x = candidate self x"
      unfolding xi st0 by (rule candidate_after_search[OF assms(1)])
  qed
  with d1 d2 have "deref self1 r1 = deref self2 r2" by simp
  with s0 s1 s2 show ?thesis
    using ranked_candidates_key[where fmt=fmt and enc=enc and api_key=key1 and datafile=datafile
        and query=query and k=top_k]
      ranked_candidates_key[where fmt=fmt and enc=enc and api_key=key2 and datafile=datafile
        and query=query and k=top_k]
    by auto
qed

lemma dim_example_other: "length (example_enc ''designer'') = ix_d example_index"
  by (simp add: example_enc_def example_index_def)

theorem search_employees_deterministic_witness:
  "built example_bot \<and> faiss_index example_bot = Some example_index \<and>
   length (example_enc ''designer'') = ix_d example_index \<and>
   length (example_enc ''python'') = ix_d example_index \<and>
   ranked_candidates example_fmt example_enc None example_file ''python'' 5 =
     ranked_candidates example_fmt example_enc (Some ''sk-key'') example_file ''python'' 5 \<and>
   (\<exists>r0 self0 r1 self1 r2 self2.
      search_employees example_enc example_bot ''designer'' 2 = Inr (r0, self0) \<and>
      search_employees example_enc self0 ''python'' 5 = Inr (r1, self1) \<and>
      search_employees example_enc example_bot ''python'' 5 = Inr (r2, self2) \<and>
      deref self1 r1 = deref self2 r2)"
  using search_employees_deterministic[where enc=example_enc and ?query0.0="''designer''"
      and query="''python''" and top_k=5 and ?k0.0=2 and fmt=example_fmt and ?key1.0=None
      and ?key2.0="Some ''sk-key''" and datafile=example_file,
      OF built_example index_example dim_example_other dim_example]
    built_example index_example dim_example_other dim_example
  by simp

subsection \<open>Empty corpus, and records without a list field\<close>

lemma isl_bindE: "isl (bindE m f) \<longleftrightarrow> (\<forall>x. m = Inr x \<longrightarrow> isl (f x))"
  by (cases m) auto

lemma mapE_fails: "x \<in> set xs \<Longrightarrow> isl (f x) \<Longrightarrow> isl (mapE f xs)"
  by (induction xs) (auto simp: isl_bindE)

lemma create_employee_text_missing:
  assumes "field \<in> {''skills'', ''projects'', ''certifications''}" and "map_of r field = None"
  shows "isl (create_employee_text fmt r)"
  using assms by (auto simp: create_employee_text_def isl_bindE py_get_def)

lemma init_empty:
  assumes "load_employee_data datafile = Inr []"
  shows "HRChatbot_init fmt enc api_key datafile =
           Inr \<lparr>heap = [], employees_data = [], employee_embeddings = None,
                faiss_index = None, openai_client = truthy api_key\<rparr>"
  using assms by (simp add: HRChatbot_init_def setup_openai_def setup_embeddings_def)

lemma chat_unbuilt:
  assumes "faiss_index self = None"
  shows "chat_with_bot fmt enc llm api_key self message sid =
           Inr (\<lparr>response = no_match_message, candidates = [],
                 session_id = (case sid of None \<Rightarrow> ''default_session''
                               | Some s \<Rightarrow> if s = [] then ''default_session'' else s)\<rparr>, self)"
  using assms by (simp add: chat_with_bot_def search_employees_def generate_response_def deref_def)

text \<open>
  Claim C5. Constructing the chatbot from an empty record set (the data file lists no
  employee, or there is no data file) succeeds and leaves the index unbuilt. On every
  chatbot with an unbuilt index, every query, whatever its text, returns the fixed
  no-match message and the empty candidate list, and leaves the chatbot as it was, so
  the same holds for every query after it.
\<close>

theorem empty_corpus_no_match:
  assumes "datafile = None \<or> (\<exists>data. datafile = Some data \<and> map_of data ''employees'' = Some [])"
  shows "\<exists>self. HRChatbot_init fmt enc api_key datafile = Inr self \<and>
           faiss_index self = None \<and> employees_data self = [] \<and>
           (\<forall>self0. faiss_index self0 = None \<longrightarrow>
              (\<forall>llm key message sid. \<exists>r.
                 chat_with_bot fmt enc llm key self0 message sid = Inr (r, self0) \<and>
                 response r = no_match_message \<and> candidates r = [] \<and>
                 search_employees enc self0 message 5 = Inr ([], self0)))"
proof -
  from assms have "load_employee_data datafile = Inr []"
    by (auto simp: load_employee_data_def)
  then have "HRChatbot_init fmt enc api_key datafile =
           Inr \<lparr>heap = [], employees_data = [], employee_embeddings = None,
                faiss_index = None, openai_client = truthy api_key\<rparr>"
    by (rule init_empty)
  moreover have "\<forall>self0. faiss_index self0 = None \<longrightarrow>
              (\<forall>llm key message sid. \<exists>r.
                 chat_with_bot fmt enc llm key self0 message sid = Inr (r, self0) \<and>
                 response r = no_match_message \<and> candidates r = [] \<and>
                 search_employees enc self0 message 5 = Inr ([], self0))"
    by (simp add: chat_unbuilt search_employees_def)
  ultimately show ?thesis by simp
qed

theorem empty_corpus_no_match_witness:
  "(Some [(''employees'', [])] = None \<or>
    (\<exists>data. Some [(''employees'', [])] = Some data \<and> map_of data ''employees'' = Some ([] :: pydict list))) \<and>
   (\<exists>self. HRChatbot_init example_fmt example_enc None (Some [(''employees'', [])]) = Inr self \<and>
           faiss_index self = None \<and> employees_data self = [] \<and>
           (\<forall>self0. faiss_index self0 = None \<longrightarrow>
              (\<forall>llm key message sid. \<exists>r.
                 chat_with_bot example_fmt example_enc llm key self0 message sid = Inr (r, self0) \<and>
                 response r = no_match_message \<and> candidates r = [] \<and>
                 search_employees example_enc self0 message 5 = Inr ([], self0))))"
proof -
  have h: "Some [(''employees'', [])] = None \<or>
    (\<exists>data. Some [(''employees'', [])] = Some data \<and> map_of data ''employees'' = Some ([] :: pydict list))"
    by simp
  from empty_corpus_no_match[where fmt=example_fmt and enc=example_enc and api_key=None, OF h] h
  show ?thesis by blast
qed

text \<open>
  Claim C9. If a record of the data file has no \<^verbatim>\<open>skills\<close>, no \<^verbatim>\<open>projects\<close> or no
  \<^verbatim>\<open>certifications\<close> field, constructing the chatbot, which loads the records and
  normalises each of them, ends in an error: no chatbot exists, so the absent field is
  never read as an empty list and no candidate is ever made from the record. The error
  is raised by \<^verbatim>\<open>create_employee_text\<close>, which reads the fields with \<^verbatim>\<open>employee[...]\<close>.
\<close>

theorem missing_list_field_is_error:
  assumes "map_of data ''employees'' = Some employees" and "r \<in> set employees"
    and "field \<in> {''skills'', ''projects'', ''certifications''}" and "map_of r field = None"
  shows "\<exists>e. HRChatbot_init fmt enc api_key (Some data) = Inl e"
proof -
  from assms(2) obtain i where i: "i < length employees" "employees ! i = r"
    by (auto simp: in_set_conv_nth)
  let ?b = "setup_openai api_key
              \<lparr>heap = employees, employees_data = [0..<length employees],
               employee_embeddings = None, faiss_index = None, openai_client = False\<rparr>"
  have hp: "heap ?b = employees" and ed: "employees_data ?b = [0..<length employees]"
    by (simp_all add: setup_openai_def)
  have "isl (create_employee_text fmt (heap ?b ! i))"
    using create_employee_text_missing[OF assms(3,4)] i by (simp add: hp)
  moreover have "i \<in> set (employees_data ?b)" using i by (simp add: ed)
  ultimately have "isl (mapE (\<lambda>emp. create_employee_text fmt (heap ?b ! emp)) (employees_data ?b))"
    by (rule mapE_fails[rotated])
  then obtain e where
    m: "mapE (\<lambda>emp. create_employee_text fmt (heap ?b ! emp)) (employees_data ?b) = Inl e"
    by (auto simp: isl_def)
  have ne: "employees_data ?b \<noteq> []"
  proof -
    from i(1) have "employees \<noteq> []" by auto
    then show ?thesis unfolding ed by simp
  qed
  have "setup_embeddings fmt enc ?b = Inl e"
    unfolding setup_embeddings_def using ne by (simp only: m if_False bindE.simps)
  then have "HRChatbot_init fmt enc api_key (Some data) = Inl e"
    by (simp add: HRChatbot_init_def load_employee_data_def assms(1))
  then show ?thesis by blast
qed

theorem missing_list_field_is_error_witness:
  "map_of [(''employees'', [ann, [(''name'', PStr ''Cy'')]])] ''employees'' =
     Some [ann, [(''name'', PStr ''Cy'')]] \<and>
   [(''name'', PStr ''Cy'')] \<in> set [ann, [(''name'', PStr ''Cy'')]] \<and>
   ''skills'' \<in> {''skills'', ''projects'', ''certifications''} \<and>
   map_of [(''name'', PStr ''Cy'')] ''skills'' = None \<and>
   (\<exists>e. HRChatbot_init example_fmt example_enc None
           (Some [(''employees'', [ann, [(''name'', PStr ''Cy'')]])]) = Inl e)"
proof -
  have a: "map_of [(''employees'', [ann, [(''name'', PStr ''Cy'')]])] ''employees'' =
     Some [ann, [(''name'', PStr ''Cy'')]]" by simp
  have b: "[(''name'', PStr ''Cy'')] \<in> set [ann, [(''name'', PStr ''Cy'')]]" by simp
  have c: "''skills'' \<in> {''skills'', ''projects'', ''certifications''}" by simp
  have d: "map_of [(''name'', PStr ''Cy'')] ''skills'' = None" by simp
  from missing_list_field_is_error[where fmt=example_fmt and enc=example_enc and api_key=None,
      OF a b c d] a b c d
  show ?thesis by blast
qed

text \<open>On this input the error is the \<^verbatim>\<open>KeyError\<close> of the absent field.\<close>

lemma missing_list_field_example:
  "HRChatbot_init example_fmt example_enc None
           (Some [(''employees'', [ann, [(''name'', PStr ''Cy'')]])]) = Inl (KeyError ''skills'')"
  by (simp add: HRChatbot_init_def load_employee_data_def setup_openai_def
     setup_embeddings_def create_employee_text_def ann_def py_get_def py_strip_def py_lstrip_def py_rstrip_def py_isspace_def str_of_int_def str_of_nat.simps upt_rec)

subsection \<open>Normalisation\<close>

lemma map_PStr_str_val: "list_all is_str vs \<Longrightarrow> map PStr (map str_val vs) = vs"
proof (induction vs)
  case Nil
  then show ?case by simp
next
  case (Cons v vs)
  then show ?case by (cases v) simp_all
qed

lemma py_get_str: "has_str r k \<Longrightarrow> py_get r k = Inr (PStr (str_field r k))"
  by (auto simp: has_str_def py_get_def str_field_def split: option.splits pyval.splits)

lemma py_get_int: "has_int r k \<Longrightarrow> py_get r k = Inr (PInt (int_field r k))"
  by (auto simp: has_int_def py_get_def int_field_def split: option.splits pyval.splits)

lemma py_get_list:
  assumes "has_list r k"
  shows "py_get r k = Inr (PList (map PStr (list_field r k)))"
proof -
  from assms obtain vs where "map_of r k = Some (PList vs)" and "list_all is_str vs"
    by (auto simp: has_list_def split: option.splits pyval.splits)
  then show ?thesis
    using map_PStr_str_val[of vs] by (simp add: py_get_def list_field_def del: map_map)
qed

lemma mapE_the_str: "mapE the_str (map PStr xs) = Inr xs"
  by (induction xs) simp_all

lemma py_join_strs: "py_join sep (PList (map PStr xs)) = Inr (join sep xs)"
  by (simp add: mapE_the_str)

lemma py_slice_strs: "py_slice_to n (PList (map PStr xs)) = Inr (PList (map PStr (take n xs)))"
  by (simp add: take_map)

lemma py_lstrip_framed:
  assumes "\<forall>c \<in> set pre. py_isspace c" and "\<not> py_isspace a"
  shows "py_lstrip (pre @ a # rest) = a # rest"
  using assms by (simp add: py_lstrip_def dropWhile_append)

lemma py_rstrip_framed:
  assumes "\<not> py_isspace b"
  shows "py_rstrip (front @ b # post) = front @ b # py_rstrip post"
  using assms by (simp add: py_rstrip_def dropWhile_append)

lemma py_rstrip_spaces:
  assumes "\<forall>c \<in> set ws. py_isspace c"
  shows "py_rstrip (s @ ws) = py_rstrip s"
  using assms by (simp add: py_rstrip_def dropWhile_append)

lemma py_strip_framed:
  assumes "\<forall>c \<in> set pre. py_isspace c" and "\<not> py_isspace a" and "\<not> py_isspace b"
    and "\<forall>c \<in> set ws. py_isspace c"
  shows "py_strip (pre @ a # mid @ b # post @ ws) = a # mid @ b # py_rstrip post"
proof -
  have "py_strip (pre @ a # mid @ b # post @ ws) = py_rstrip ((a # mid) @ b # post @ ws)"
    using py_lstrip_framed[OF assms(1,2)] by (simp add: py_strip_def)
  also have "\<dots> = (a # mid) @ b # py_rstrip (post @ ws)"
    using assms(3) by (rule py_rstrip_framed)
  also have "\<dots> = a # mid @ b # py_rstrip post"
    using py_rstrip_spaces[OF assms(4)] by simp
  finally show ?thesis .
qed

lemma sublist_in_append: "sublist s m \<Longrightarrow> sublist s (a @ m @ b)"
  unfolding sublist_def by (metis append_assoc)

lemma sublist_join: "s \<in> set xs \<Longrightarrow> sublist s (join sep xs)"
proof (induction sep xs rule: join.induct)
  case (1 sep)
  then show ?case by simp
next
  case (2 sep x)
  then show ?case by simp
next
  case (3 sep x y ys)
  show ?case
  proof (cases "s = x")
    case True
    then show ?thesis by simp
  next
    case False
    with 3 have "sublist s (join sep (y # ys))" by simp
    then have "sublist s ((x @ sep) @ join sep (y # ys) @ [])"
      by (rule sublist_in_append)
    then show ?thesis by simp
  qed
qed

lemma create_employee_text_raw:
  assumes "well_formed r"
  shows "create_employee_text fmt r =
     Inr (py_strip
         (''\<newline>        Name: '' @ str_field r ''name'' @
          ''\<newline>        Skills: '' @ join '', '' (list_field r ''skills'') @
          ''\<newline>        Experience: '' @ str_of_int (int_field r ''experience_years'') @ '' years'' @
          ''\<newline>        Projects: '' @ join '', '' (list_field r ''projects'') @
          ''\<newline>        Department: '' @ str_field r ''department'' @
          ''\<newline>        Specialization: '' @ str_field r ''specialization'' @
          ''\<newline>        Certifications: '' @ join '', '' (list_field r ''certifications'') @
          ''\<newline>        Availability: '' @ str_field r ''availability'' @
          ''\<newline>        ''))"
proof -
  from assms have f: "has_str r ''name''" "has_list r ''skills''" "has_int r ''experience_years''"
    "has_list r ''projects''" "has_str r ''department''" "has_str r ''specialization''"
    "has_list r ''certifications''" "has_str r ''availability''"
    by (simp_all add: well_formed_def)
  show ?thesis
    unfolding create_employee_text_def
    by (simp only: py_get_str[OF f(1)] py_get_list[OF f(2)] py_get_int[OF f(3)]
        py_get_list[OF f(4)] py_get_str[OF f(5)] py_get_str[OF f(6)] py_get_list[OF f(7)]
        py_get_str[OF f(8)] bindE.simps py_join_strs py_format.simps)
qed

lemma create_employee_text_eq:
  assumes "well_formed r"
  shows "create_employee_text fmt r = Inr (normal_text r)"
proof -
  let ?mid = "''ame: '' @ str_field r ''name'' @
          ''\<newline>        Skills: '' @ join '', '' (list_field r ''skills'') @
          ''\<newline>        Experience: '' @ str_of_int (int_field r ''experience_years'') @ '' years'' @
          ''\<newline>        Projects: '' @ join '', '' (list_field r ''projects'') @
          ''\<newline>        Department: '' @ str_field r ''department'' @
          ''\<newline>        Specialization: '' @ str_field r ''specialization'' @
          ''\<newline>        Certifications: '' @ join '', '' (list_field r ''certifications'') @
          ''\<newline>        Availability''"
  let ?post = "'' '' @ str_field r ''availability''"
  have sp: "\<forall>c \<in> set ''\<newline>        ''. py_isspace c" by (simp add: py_isspace_def)
  have nN: "\<not> py_isspace CHR ''N''" and nc: "\<not> py_isspace CHR '':''"
    by (simp_all add: py_isspace_def)
  have "create_employee_text fmt r =
          Inr (py_strip (''\<newline>        '' @ CHR ''N'' # ?mid @ CHR '':'' # ?post @ ''\<newline>        ''))"
    by (simp add: create_employee_text_raw[OF assms])
  also have "\<dots> = Inr (CHR ''N'' # ?mid @ CHR '':'' # py_rstrip ?post)"
    by (simp only: py_strip_framed[OF sp nN nc sp])
  also have "\<dots> = Inr (normal_text r)"
    by (simp add: normal_text_def)
  finally show ?thesis .
qed

lemma create_employee_text_fields:
  assumes "\<forall>k \<in> set normalized_fields. map_of r' k = map_of r k"
  shows "create_employee_text fmt r' = create_employee_text fmt r"
  using assms by (simp add: create_employee_text_def py_get_def normalized_fields_def)

text \<open>
  Claim C6. For every record with the fields of the schema, \<^verbatim>\<open>create_employee_text\<close>
  returns the text \<^const>\<open>normal_text\<close>: the labelled fields in the order name, skills,
  experience, projects, department, specialization, certifications, availability, the
  list fields joined with a comma and a space. Every skill, project and certification of
  the record is a substring of the text. The result is a function of these eight fields
  alone: a record that agrees on them gives the same text, whatever else differs.
\<close>

theorem create_employee_text_normal:
  assumes "well_formed r"
  shows "create_employee_text fmt r = Inr (normal_text r) \<and>
         (\<forall>s \<in> set (list_field r ''skills'') \<union> set (list_field r ''projects'') \<union>
                 set (list_field r ''certifications''). sublist s (normal_text r)) \<and>
         (\<forall>r' fmt'. (\<forall>k \<in> set normalized_fields. map_of r' k = map_of r k) \<longrightarrow>
                    create_employee_text fmt' r' = create_employee_text fmt r)"
proof -
  have t: "create_employee_text fmt r = Inr (normal_text r)" for fmt
    by (rule create_employee_text_eq[OF assms])
  have s1: "sublist s (normal_text r)" if "s \<in> set (list_field r ''skills'')" for s
  proof -
    from that have "sublist s (join '', '' (list_field r ''skills''))" by (rule sublist_join)
    then have "sublist s ((''Name: '' @ str_field r ''name'' @ ''\<newline>        Skills: '') @
        join '', '' (list_field r ''skills'') @
        (''\<newline>        Experience: '' @ str_of_int (int_field r ''experience_years'') @ '' years'' @
         ''\<newline>        Projects: '' @ join '', '' (list_field r ''projects'') @
         ''\<newline>        Department: '' @ str_field r ''department'' @
         ''\<newline>        Specialization: '' @ str_field r ''specialization'' @
         ''\<newline>        Certifications: '' @ join '', '' (list_field r ''certifications'') @
         ''\<newline>        Availability:'' @ py_rstrip ('' '' @ str_field r ''availability'')))"
      by (rule sublist_in_append)
    then show ?thesis by (simp add: normal_text_def)
  qed
  have s2: "sublist s (normal_text r)" if "s \<in> set (list_field r ''projects'')" for s
  proof -
    from that have "sublist s (join '', '' (list_field r ''projects''))" by (rule sublist_join)
    then have "sublist s ((''Name: '' @ str_field r ''name'' @
         ''\<newline>        Skills: '' @ join '', '' (list_field r ''skills'') @
         ''\<newline>        Experience: '' @ str_of_int (int_field r ''experience_years'') @ '' years'' @
         ''\<newline>        Projects: '') @ join '', '' (list_field r ''projects'') @
        (''\<newline>        Department: '' @ str_field r ''department'' @
         ''\<newline>        Specialization: '' @ str_field r ''specialization'' @
         ''\<newline>        Certifications: '' @ join '', '' (list_field r ''certifications'') @
         ''\<newline>        Availability:'' @ py_rstrip ('' '' @ str_field r ''availability'')))"
      by (rule sublist_in_append)
    then show ?thesis by (simp add: normal_text_def)
  qed
  have s3: "sublist s (normal_text r)" if "s \<in> set (list_field r ''certifications'')" for s
  proof -
    from that have "sublist s (join '', '' (list_field r ''certifications''))" by (rule sublist_join)
    then have "sublist s ((''Name: '' @ str_field r ''name'' @
         ''\<newline>        Skills: '' @ join '', '' (list_field r ''skills'') @
         ''\<newline>        Experience: '' @ str_of_int (int_field r ''experience_years'') @ '' years'' @
         ''\<newline>        Projects: '' @ join '', '' (list_field r ''projects'') @
         ''\<newline>        Department: '' @ str_field r ''department'' @
         ''\<newline>        Specialization: '' @ str_field r ''specialization'' @
         ''\<newline>        Certifications: '') @ join '', '' (list_field r ''certifications'') @
        (''\<newline>        Availability:'' @ py_rstrip ('' '' @ str_field r ''availability'')))"
      by (rule sublist_in_append)
    then show ?thesis by (simp add: normal_text_def)
  qed
  have d: "\<forall>r' fmt'. (\<forall>k \<in> set normalized_fields. map_of r' k = map_of r k) \<longrightarrow>
                    create_employee_text fmt' r' = create_employee_text fmt r"
  proof (intro allI impI)
    fix r' fmt' assume "\<forall>k \<in> set normalized_fields. map_of r' k = map_of r k"
    then have "create_employee_text fmt' r' = create_employee_text fmt' r"
      by (rule create_employee_text_fields)
    then show "create_employee_text fmt' r' = create_employee_text fmt r"
      by (simp add: t)
  qed
  from t s1 s2 s3 d show ?thesis by blast
qed

lemma well_formed_ann: "well_formed ann"
  by (simp add: well_formed_def has_str_def has_int_def has_list_def ann_def)

lemma well_formed_bob: "well_formed bob"
  by (simp add: well_formed_def has_str_def has_int_def has_list_def bob_def)

lemma create_employee_text_ann:
  "create_employee_text example_fmt ann =
     Inr ''Name: Ann\<newline>        Skills: Python, SQL\<newline>        Experience: 5 years\<newline>        Projects: Billing\<newline>        Department: Engineering\<newline>        Specialization: Backend\<newline>        Certifications: AWS\<newline>        Availability: available''"
  unfolding create_employee_text_eq[OF well_formed_ann]
  by (simp add: normal_text_def ann_def str_field_def
      int_field_def list_field_def py_rstrip_def py_isspace_def str_of_int_def str_of_nat.simps)

theorem create_employee_text_normal_witness:
  "well_formed ann \<and>
   create_employee_text example_fmt ann = Inr (normal_text ann) \<and>
   sublist ''Python'' (normal_text ann) \<and> sublist ''SQL'' (normal_text ann) \<and>
   sublist ''Billing'' (normal_text ann) \<and> sublist ''AWS'' (normal_text ann) \<and>
   create_employee_text (\<lambda>v. ''?'') (with_score (3 / 5) ann) =
     create_employee_text example_fmt ann"
proof -
  note t = create_employee_text_normal[OF well_formed_ann, of example_fmt]
  have f: "list_field ann ''skills'' = [''Python'', ''SQL'']"
    "list_field ann ''projects'' = [''Billing'']"
    "list_field ann ''certifications'' = [''AWS'']"
    by (simp_all add: list_field_def ann_def)
  have k: "\<forall>k \<in> set normalized_fields. map_of (with_score (3 / 5) ann) k = map_of ann k"
    by (simp add: normalized_fields_def with_score_def update_conv')
  from t have a: "create_employee_text example_fmt ann = Inr (normal_text ann)" by blast
  from t[unfolded f] have b: "sublist ''Python'' (normal_text ann)"
    "sublist ''SQL'' (normal_text ann)" "sublist ''Billing'' (normal_text ann)"
    "sublist ''AWS'' (normal_text ann)"
    by simp_all
  from t k have c: "create_employee_text (\<lambda>v. ''?'') (with_score (3 / 5) ann) =
     create_employee_text example_fmt ann" by blast
  from a b c well_formed_ann show ?thesis by simp
qed

subsection \<open>The template response\<close>

lemma single_candidate_eq:
  assumes "well_formed c"
  shows "single_candidate fmt query c =
     Inr (''Based on your query '' @ dquote @ query @ dquote @
          '', I found an excellent candidate:\<newline>\<newline>**'' @ str_field c ''name'' @
          ''** would be perfect for this role. They have '' @
          str_of_int (int_field c ''experience_years'') @
          '' years of experience and their skills include '' @
          join '', '' (take 5 (list_field c ''skills'')) @
          ''. \<newline>\<newline>They have worked on projects like: '' @
          join '', '' (list_field c ''projects'') @
          ''\<newline>\<newline>Department: '' @ str_field c ''department'' @
          ''\<newline>Specialization: '' @ str_field c ''specialization'' @
          ''\<newline>Current availability: '' @ str_field c ''availability'' @
          ''\<newline>\<newline>Would you like more details about their background or see other candidates?'')"
proof -
  from assms have f: "has_str c ''name''" "has_list c ''skills''" "has_int c ''experience_years''"
    "has_list c ''projects''" "has_str c ''department''" "has_str c ''specialization''"
    "has_str c ''availability''"
    by (simp_all add: well_formed_def)
  show ?thesis
    unfolding single_candidate_def
    by (simp only: py_get_str[OF f(1)] py_get_list[OF f(2)] py_get_int[OF f(3)]
        py_get_list[OF f(4)] py_get_str[OF f(5)] py_get_str[OF f(6)] py_get_str[OF f(7)]
        bindE.simps py_join_strs py_slice_strs py_format.simps)
qed

lemma list_entry_eq:
  assumes "well_formed c"
  shows "list_entry fmt i c = Inr (entry_text i c)"
proof -
  from assms have f: "has_str c ''name''" "has_list c ''skills''" "has_int c ''experience_years''"
    "has_str c ''specialization''" "has_str c ''availability''"
    by (simp_all add: well_formed_def)
  show ?thesis
    unfolding list_entry_def entry_text_def
    by (simp only: py_get_str[OF f(1)] py_get_list[OF f(2)] py_get_int[OF f(3)]
        py_get_str[OF f(4)] py_get_str[OF f(5)]
        bindE.simps py_join_strs py_slice_strs py_format.simps)
qed

lemma list_entries_eq:
  "list_all well_formed cs \<Longrightarrow>
   list_entries fmt i cs acc = Inr (acc @ concat (map2 entry_text [i..<i + length cs] cs))"
proof (induction cs arbitrary: i acc)
  case Nil
  then show ?case by simp
next
  case (Cons c cs)
  then have wc: "well_formed c" and wcs: "list_all well_formed cs" by simp_all
  have u: "[i..<i + length (c # cs)] = i # [Suc i..<Suc i + length cs]"
    by (simp add: upt_rec)
  show ?case
    unfolding u by (simp add: list_entry_eq[OF wc] Cons.IH[OF wcs])
qed

lemma template_list_eq:
  assumes "list_all well_formed cs" and "length cs \<noteq> 1"
  shows "generate_template_response fmt query cs =
     Inr (''Based on your query '' @ dquote @ query @ dquote @ '', I found '' @
          str_of_nat (length cs) @ '' excellent candidates:\<newline>\<newline>'' @
          concat (map2 entry_text [1..<1 + length (take 3 cs)] (take 3 cs)) @
          (if 3 < length cs
           then ''\<newline>I found '' @ str_of_nat (length cs - 3) @
                '' more candidates. Would you like to see them?''
           else []))"
proof -
  from assms(1) have "list_all well_formed (take 3 cs)"
    by (auto simp: list_all_iff dest: in_set_takeD)
  from list_entries_eq[OF this] assms(2) show ?thesis
    by (simp add: generate_template_response_def)
qed

lemma template_single_eq:
  assumes "well_formed c"
  shows "generate_template_response fmt query [c] = single_candidate fmt query c"
  by (simp add: generate_template_response_def)

text \<open>
  Claim C7. On the template path, for candidates with the fields of the schema: one
  candidate gives the narrative with the name, the experience, the first five skills at
  most, all projects, the department, the specialization and the availability; more than
  one candidate gives a numbered list of the first three at most, followed, when there
  are more than three, by the number of the remaining candidates and the offer to show
  them.
\<close>

theorem template_response_shape:
  assumes "list_all well_formed cs"
  shows "(\<forall>c. cs = [c] \<longrightarrow>
            generate_template_response fmt query cs =
              Inr (''Based on your query '' @ dquote @ query @ dquote @
                   '', I found an excellent candidate:\<newline>\<newline>**'' @ str_field c ''name'' @
                   ''** would be perfect for this role. They have '' @
                   str_of_int (int_field c ''experience_years'') @
                   '' years of experience and their skills include '' @
                   join '', '' (take 5 (list_field c ''skills'')) @
                   ''. \<newline>\<newline>They have worked on projects like: '' @
                   join '', '' (list_field c ''projects'') @
                   ''\<newline>\<newline>Department: '' @ str_field c ''department'' @
                   ''\<newline>Specialization: '' @ str_field c ''specialization'' @
                   ''\<newline>Current availability: '' @ str_field c ''availability'' @
                   ''\<newline>\<newline>Would you like more details about their background or see other candidates?'')) \<and>
         (1 < length cs \<longrightarrow>
            generate_template_response fmt query cs =
              Inr (''Based on your query '' @ dquote @ query @ dquote @ '', I found '' @
                   str_of_nat (length cs) @ '' excellent candidates:\<newline>\<newline>'' @
                   concat (map2 entry_text [1..<1 + min 3 (length cs)] (take 3 cs)) @
                   (if 3 < length cs
                    then ''\<newline>I found '' @ str_of_nat (length cs - 3) @
                         '' more candidates. Would you like to see them?''
                    else [])))"
proof (intro conjI allI impI)
  fix c assume c: "cs = [c]"
  with assms have "well_formed c" by simp
  then show "generate_template_response fmt query cs =
              Inr (''Based on your query '' @ dquote @ query @ dquote @
                   '', I found an excellent candidate:\<newline>\<newline>**'' @ str_field c ''name'' @
                   ''** would be perfect for this role. They have '' @
                   str_of_int (int_field c ''experience_years'') @
                   '' years of experience and their skills include '' @
                   join '', '' (take 5 (list_field c ''skills'')) @
                   ''. \<newline>\<newline>They have worked on projects like: '' @
                   join '', '' (list_field c ''projects'') @
                   ''\<newline>\<newline>Department: '' @ str_field c ''department'' @
                   ''\<newline>Specialization: '' @ str_field c ''specialization'' @
                   ''\<newline>Current availability: '' @ str_field c ''availability'' @
                   ''\<newline>\<newline>Would you like more details about their background or see other candidates?'')"
    unfolding c by (simp only: template_single_eq single_candidate_eq)
next
  assume "1 < length cs"
  then have "length cs \<noteq> 1" by simp
  from template_list_eq[OF assms this, of fmt query]
  show "generate_template_response fmt query cs =
              Inr (''Based on your query '' @ dquote @ query @ dquote @ '', I found '' @
                   str_of_nat (length cs) @ '' excellent candidates:\<newline>\<newline>'' @
                   concat (map2 entry_text [1..<1 + min 3 (length cs)] (take 3 cs)) @
                   (if 3 < length cs
                    then ''\<newline>I found '' @ str_of_nat (length cs - 3) @
                         '' more candidates. Would you like to see them?''
                    else []))"
    by (simp add: min.commute)
qed

lemma well_formed_five: "list_all well_formed [ann, bob, ann, bob, ann]"
  by (simp add: well_formed_ann well_formed_bob)

theorem template_response_shape_witness:
  "list_all well_formed [ann] \<and> list_all well_formed [ann, bob, ann, bob, ann] \<and>
   generate_template_response example_fmt ''sql'' [ann] =
     Inr (''Based on your query '' @ dquote @ ''sql'' @ dquote @
          '', I found an excellent candidate:\<newline>\<newline>**'' @ str_field ann ''name'' @
          ''** would be perfect for this role. They have '' @
          str_of_int (int_field ann ''experience_years'') @
          '' years of experience and their skills include '' @
          join '', '' (take 5 (list_field ann ''skills'')) @
          ''. \<newline>\<newline>They have worked on projects like: '' @
          join '', '' (list_field ann ''projects'') @
          ''\<newline>\<newline>Department: '' @ str_field ann ''department'' @
          ''\<newline>Specialization: '' @ str_field ann ''specialization'' @
          ''\<newline>Current availability: '' @ str_field ann ''availability'' @
          ''\<newline>\<newline>Would you like more details about their background or see other candidates?'') \<and>
   generate_template_response example_fmt ''sql'' [ann, bob, ann, bob, ann] =
     Inr (''Based on your query '' @ dquote @ ''sql'' @ dquote @ '', I found '' @
          str_of_nat 5 @ '' excellent candidates:\<newline>\<newline>'' @
          concat (map2 entry_text [1, 2, 3] [ann, bob, ann]) @
          ''\<newline>I found '' @ str_of_nat 2 @
          '' more candidates. Would you like to see them?'')"
proof -
  have one: "list_all well_formed [ann]" by (simp add: well_formed_ann)
  have u: "[1..<1 + min 3 (length [ann, bob, ann, bob, ann])] = [1, 2, 3]"
    by (simp add: upt_rec)
  from template_response_shape[OF one, of example_fmt "''sql''"]
  have a: "generate_template_response example_fmt ''sql'' [ann] =
     Inr (''Based on your query '' @ dquote @ ''sql'' @ dquote @
          '', I found an excellent candidate:\<newline>\<newline>**'' @ str_field ann ''name'' @
          ''** would be perfect for this role. They have '' @
          str_of_int (int_field ann ''experience_years'') @
          '' years of experience and their skills include '' @
          join '', '' (take 5 (list_field ann ''skills'')) @
          ''. \<newline>\<newline>They have worked on projects like: '' @
          join '', '' (list_field ann ''projects'') @
          ''\<newline>\<newline>Department: '' @ str_field ann ''department'' @
          ''\<newline>Specialization: '' @ str_field ann ''specialization'' @
          ''\<newline>Current availability: '' @ str_field ann ''availability'' @
          ''\<newline>\<newline>Would you like more details about their background or see other candidates?'')"
    by blast
  have l: "length [ann, bob, ann, bob, ann] = 5" by simp
  from template_response_shape[OF well_formed_five, of example_fmt "''sql''", unfolded l]
  have b: "generate_template_response example_fmt ''sql'' [ann, bob, ann, bob, ann] =
     Inr (''Based on your query '' @ dquote @ ''sql'' @ dquote @ '', I found '' @
          str_of_nat 5 @ '' excellent candidates:\<newline>\<newline>'' @
          concat (map2 entry_text [1, 2, 3] [ann, bob, ann]) @
          ''\<newline>I found '' @ str_of_nat 2 @
          '' more candidates. Would you like to see them?'')"
    unfolding u[unfolded l] by simp
  from one well_formed_five a b show ?thesis by blast
qed

text \<open>Five candidates: the first three are listed and two more are announced.\<close>

lemma template_five_example:
  "generate_template_response example_fmt ''sql'' [ann, bob, ann, bob, ann] =
     Inr (''Based on your query '' @ dquote @ ''sql'' @ dquote @
          '', I found 5 excellent candidates:\<newline>\<newline>'' @
          ''**1. Ann** (5 years experience)\<newline>- Key skills: Python, SQL\<newline>- Specialization: Backend\<newline>- Availability: available\<newline>\<newline>'' @
          ''**2. Bob** (12 years experience)\<newline>- Key skills: Figma\<newline>- Specialization: UX\<newline>- Availability: busy\<newline>\<newline>'' @
          ''**3. Ann** (5 years experience)\<newline>- Key skills: Python, SQL\<newline>- Specialization: Backend\<newline>- Availability: available\<newline>\<newline>'' @
          ''\<newline>I found 2 more candidates. Would you like to see them?'')"
  by (simp add: generate_template_response_def list_entry_def ann_def bob_def py_get_def
      str_of_int_def str_of_nat.simps)

subsection \<open>Failure of the generative collaborator\<close>

lemma bindE_eq_Inr: "bindE m f = Inr y \<longleftrightarrow> (\<exists>x. m = Inr x \<and> f x = Inr y)"
  by (cases m) auto

lemma mapE_length: "mapE f xs = Inr ys \<Longrightarrow> length ys = length xs"
  by (induction xs arbitrary: ys) (auto simp: bindE_eq_Inr)

lemma mapE_all: "mapE f xs = Inr ys \<Longrightarrow> x \<in> set xs \<Longrightarrow> \<exists>y. f x = Inr y"
  by (induction xs arbitrary: ys) (auto simp: bindE_eq_Inr)

lemma mapE_take: "mapE f xs = Inr ys \<Longrightarrow> mapE f (take n xs) = Inr (take n ys)"
proof (induction xs arbitrary: ys n)
  case Nil
  then show ?case by simp
next
  case (Cons x xs)
  then show ?case by (cases n) (auto simp: bindE_eq_Inr)
qed

lemma slice_then_join:
  assumes "py_join sep v = Inr t"
  shows "\<exists>w t'. py_slice_to n v = Inr w \<and> py_join sep w = Inr t'"
proof (cases v)
  case (PList vs)
  with assms obtain ss where "mapE the_str vs = Inr ss" by (auto simp: bindE_eq_Inr)
  then have "mapE the_str (take n vs) = Inr (take n ss)" by (rule mapE_take)
  with PList show ?thesis by simp
qed (use assms in simp_all)

lemma normalizes_fields:
  assumes "normalizes fmt c"
  shows "\<exists>skills sk projects pr name ey dept spec avail.
           py_get c ''skills'' = Inr skills \<and> py_join '', '' skills = Inr sk \<and>
           py_get c ''projects'' = Inr projects \<and> py_join '', '' projects = Inr pr \<and>
           py_get c ''name'' = Inr name \<and> py_get c ''experience_years'' = Inr ey \<and>
           py_get c ''department'' = Inr dept \<and> py_get c ''specialization'' = Inr spec \<and>
           py_get c ''availability'' = Inr avail"
proof -
  from assms obtain t where "create_employee_text fmt c = Inr t"
    by (auto simp: normalizes_def split: sum.splits)
  then show ?thesis
    unfolding create_employee_text_def bindE_eq_Inr by blast
qed

lemma single_candidate_total:
  assumes "normalizes fmt c"
  shows "\<exists>text. single_candidate fmt query c = Inr text"
proof -
  from normalizes_fields[OF assms] obtain skills sk projects pr name ey dept spec avail where
    f: "py_get c ''skills'' = Inr skills" "py_join '', '' skills = Inr sk"
      "py_get c ''projects'' = Inr projects" "py_join '', '' projects = Inr pr"
      "py_get c ''name'' = Inr name" "py_get c ''experience_years'' = Inr ey"
      "py_get c ''department'' = Inr dept" "py_get c ''specialization'' = Inr spec"
      "py_get c ''availability'' = Inr avail"
    by blast
  from slice_then_join[OF f(2), of 5] obtain w t' where
    s: "py_slice_to 5 skills = Inr w" "py_join '', '' w = Inr t'" by blast
  show ?thesis
    unfolding single_candidate_def by (simp only: f s bindE.simps) blast
qed

lemma list_entry_total:
  assumes "normalizes fmt c"
  shows "\<exists>text. list_entry fmt i c = Inr text"
proof -
  from normalizes_fields[OF assms] obtain skills sk name ey spec avail where
    f: "py_get c ''skills'' = Inr skills" "py_join '', '' skills = Inr sk"
      "py_get c ''name'' = Inr name" "py_get c ''experience_years'' = Inr ey"
      "py_get c ''specialization'' = Inr spec" "py_get c ''availability'' = Inr avail"
    by blast
  from slice_then_join[OF f(2), of 3] obtain w t' where
    s: "py_slice_to 3 skills = Inr w" "py_join '', '' w = Inr t'" by blast
  show ?thesis
    unfolding list_entry_def by (simp only: f s bindE.simps) blast
qed

lemma list_entries_total:
  "list_all (normalizes fmt) cs \<Longrightarrow> \<exists>text. list_entries fmt i cs acc = Inr text"
proof (induction cs arbitrary: i acc)
  case Nil
  then show ?case by simp
next
  case (Cons c cs)
  then have "normalizes fmt c" and r: "list_all (normalizes fmt) cs" by simp_all
  then obtain e where "list_entry fmt i c = Inr e" using list_entry_total by blast
  with Cons.IH[OF r] show ?case by simp
qed

lemma template_total:
  assumes "list_all (normalizes fmt) cs"
  shows "\<exists>text. generate_template_response fmt query cs = Inr text"
proof (cases "length cs = 1")
  case True
  then obtain c where c: "cs = [c]" by (cases cs) auto
  with assms have "normalizes fmt c" by simp
  from single_candidate_total[OF this] show ?thesis
    by (simp add: generate_template_response_def c)
next
  case False
  from assms have "list_all (normalizes fmt) (take 3 cs)"
    by (auto simp: list_all_iff dest: in_set_takeD)
  from list_entries_total[OF this] obtain t where
    "list_entries fmt 1 (take 3 cs)
       (''Based on your query '' @ dquote @ query @ dquote @ '', I found '' @
        str_of_nat (length cs) @ '' excellent candidates:\<newline>\<newline>'') = Inr t"
    by blast
  with False show ?thesis
    by (simp add: generate_template_response_def)
qed

lemma well_formed_normalizes: "well_formed c \<Longrightarrow> normalizes fmt c"
  by (simp add: normalizes_def create_employee_text_eq)

lemma normalizes_with_score:
  assumes "normalizes fmt r"
  shows "normalizes fmt (with_score s r)"
proof -
  have "\<forall>k \<in> set normalized_fields. map_of (with_score s r) k = map_of r k"
    by (simp add: normalized_fields_def with_score_def update_conv')
  then have "create_employee_text fmt (with_score s r) = create_employee_text fmt r"
    by (rule create_employee_text_fields)
  with assms show ?thesis by (simp add: normalizes_def)
qed

lemma well_formed_with_score: "well_formed r \<Longrightarrow> well_formed (with_score s r)"
  by (simp add: well_formed_def has_str_def has_int_def has_list_def with_score_def update_conv')

text \<open>
  The constructor: when it returns a chatbot with a corpus, the index is built and every
  record of the corpus has passed \<^verbatim>\<open>create_employee_text\<close>. The small corpus is what
  the constructor makes of its data file.
\<close>

lemma init_built:
  assumes "HRChatbot_init fmt enc api_key datafile = Inr self" and "employees_data self \<noteq> []"
  shows "built self \<and> (\<forall>a \<in> set (employees_data self). normalizes fmt (heap self ! a))"
proof -
  from assms(1) obtain employees where
    l: "load_employee_data datafile = Inr employees"
    and s: "setup_embeddings fmt enc
              (setup_openai api_key
                 \<lparr>heap = employees, employees_data = [0..<length employees],
                  employee_embeddings = None, faiss_index = None, openai_client = False\<rparr>) = Inr self"
    by (auto simp: HRChatbot_init_def bindE_eq_Inr)
  let ?b = "setup_openai api_key
                 \<lparr>heap = employees, employees_data = [0..<length employees],
                  employee_embeddings = None, faiss_index = None, openai_client = False\<rparr>"
  have hp: "heap ?b = employees" and ed: "employees_data ?b = [0..<length employees]"
    by (simp_all add: setup_openai_def)
  have ne: "employees_data ?b \<noteq> []"
  proof
    assume "employees_data ?b = []"
    with s have "self = ?b" by (simp add: setup_embeddings_def)
    with \<open>employees_data ?b = []\<close> assms(2) show False by simp
  qed
  with s obtain texts where
    m: "mapE (\<lambda>emp. create_employee_text fmt (heap ?b ! emp)) (employees_data ?b) = Inr texts"
    and self: "self = ?b\<lparr>employee_embeddings := Some (normalize_L2 (map enc texts)),
                         faiss_index := Some (index_add \<lparr>ix_d = length (hd (map enc texts)), ix_xb = []\<rparr>
                                               (normalize_L2 (map enc texts)))\<rparr>"
    by (auto simp: setup_embeddings_def bindE_eq_Inr Let_def)
  have len: "length texts = length employees"
    using mapE_length[OF m] by (simp add: ed)
  have b: "built self"
    using ne len by (simp add: built_def self hp ed index_add_def normalize_L2_def)
  have n: "\<forall>a \<in> set (employees_data self). normalizes fmt (heap self ! a)"
  proof
    fix a assume "a \<in> set (employees_data self)"
    then have "a \<in> set (employees_data ?b)" by (simp add: self)
    from mapE_all[OF m this] show "normalizes fmt (heap self ! a)"
      by (auto simp: normalizes_def self)
  qed
  from b n show ?thesis ..
qed

lemma create_employee_text_bob:
  "create_employee_text example_fmt bob =
     Inr ''Name: Bob\<newline>        Skills: Figma\<newline>        Experience: 12 years\<newline>        Projects: \<newline>        Department: Design\<newline>        Specialization: UX\<newline>        Certifications: \<newline>        Availability: busy''"
  unfolding create_employee_text_eq[OF well_formed_bob]
  by (simp add: normal_text_def bob_def str_field_def
      int_field_def list_field_def py_rstrip_def py_isspace_def str_of_int_def str_of_nat.simps)

lemma init_example: "HRChatbot_init example_fmt example_enc None example_file = Inr example_bot"
proof -
  have s: "sqrt 25 = 5" using real_sqrt_abs[of 5] by simp
  show ?thesis
    by (simp add: HRChatbot_init_def example_file_def load_employee_data_def setup_openai_def
        setup_embeddings_def create_employee_text_ann create_employee_text_bob
        example_enc_def normalize_L2_def fvec_norm_L2sqr_def s
        index_add_def example_bot_def example_index_def upt_rec Let_def)
qed

text \<open>
  The whole query on such a chatbot never ends in an error: the candidates are copies of
  records that were normalised, and the synthesizer has a text for them.
\<close>

lemma chat_with_bot_total:
  assumes "built self" and "faiss_index self = Some ix" and "length (enc message) = ix_d ix"
    and "\<forall>a \<in> set (employees_data self). normalizes fmt (heap self ! a)"
  shows "\<exists>r self'. chat_with_bot fmt enc llm api_key self message sid = Inr (r, self')"
proof -
  let ?hits = "surviving ix (query_vector enc message) 5"
  from search_employees_built[where enc=enc and query=message and k=5, OF assms(1-3)]
  obtain results self' where
    s: "search_employees enc self message 5 = Inr (results, self')"
    and d: "deref self' results = map (candidate self) ?hits"
    by blast
  from assms(1,2) have n: "length (ix_xb ix) = length (employees_data self)"
    by (auto simp: built_def)
  have "list_all (normalizes fmt) (map (candidate self) ?hits)"
  proof -
    have "normalizes fmt (candidate self x)" if "x \<in> set ?hits" for x
    proof -
      obtain t i where x: "x = (t, i)" by (cases x)
      with that have "i < length (employees_data self)"
        using surviving_index[of t i ix "query_vector enc message" 5] n by simp
      then have "employees_data self ! i \<in> set (employees_data self)" by simp
      with assms(4) have "normalizes fmt (heap self ! (employees_data self ! i))" by blast
      then show ?thesis unfolding x candidate_def by (simp add: normalizes_with_score)
    qed
    then show ?thesis by (simp add: list_all_iff)
  qed
  then have w: "list_all (normalizes fmt) (deref self' results)" by (simp only: d)
  from template_total[OF w] obtain t where
    t: "generate_template_response fmt message (deref self' results) = Inr t" by blast
  have "\<exists>text. generate_openai_response fmt llm message (deref self' results) = Inr text"
    by (cases "bindE (build_context fmt (deref self' results)
                    ''Based on your query, here are the relevant employees:\<newline>\<newline>'')
             (\<lambda>ctx. llm (build_prompt message ctx))")
       (simp_all add: generate_openai_response_def t)
  then have "\<exists>text. generate_response fmt llm api_key self' message (deref self' results) = Inr text"
    using t by (simp add: generate_response_def)
  then show ?thesis
    by (auto simp: chat_with_bot_def s)
qed

lemma context_entry_total:
  assumes "normalizes fmt c"
  shows "\<exists>text. context_entry fmt c = Inr text"
proof -
  from normalizes_fields[OF assms] obtain skills sk projects pr name ey dept spec avail where
    f: "py_get c ''skills'' = Inr skills" "py_join '', '' skills = Inr sk"
      "py_get c ''projects'' = Inr projects" "py_join '', '' projects = Inr pr"
      "py_get c ''name'' = Inr name" "py_get c ''experience_years'' = Inr ey"
      "py_get c ''department'' = Inr dept" "py_get c ''specialization'' = Inr spec"
      "py_get c ''availability'' = Inr avail"
    by blast
  show ?thesis
    unfolding context_entry_def by (simp only: f bindE.simps) blast
qed

lemma build_context_total:
  "list_all (normalizes fmt) cs \<Longrightarrow> \<exists>ctx. build_context fmt cs acc = Inr ctx"
proof (induction cs arbitrary: acc)
  case Nil
  then show ?case by simp
next
  case (Cons c cs)
  then have "normalizes fmt c" and r: "list_all (normalizes fmt) cs" by simp_all
  then obtain e where "context_entry fmt c = Inr e" using context_entry_total by blast
  with Cons.IH[OF r] show ?case by simp
qed

text \<open>
  Claim C2. For every query and every non-empty list of candidates that
  \<^verbatim>\<open>create_employee_text\<close> accepts (the candidates of a search are such, and so is every
  record with the fields of the schema), the synthesizer returns a text and never an
  error, with or without the generative collaborator. The prompt is built without error;
  when the collaborator raises an exception on this prompt, the one call that is made,
  the answer is the template response for the same candidates, and when it returns a
  text, that text is the answer of \<^verbatim>\<open>generate_openai_response\<close>. In particular a
  collaborator that fails on every prompt always gives the template response. The
  exceptions are those \<^verbatim>\<open>except Exception\<close> catches.
\<close>

theorem generation_failure_falls_back:
  assumes "employees \<noteq> []" and "list_all (normalizes fmt) employees"
  shows "(\<exists>text. generate_response fmt llm api_key self query employees = Inr text) \<and>
         (\<exists>text. generate_openai_response fmt llm query employees = Inr text) \<and>
         (\<exists>ctx. build_context fmt employees
                  ''Based on your query, here are the relevant employees:\<newline>\<newline>'' = Inr ctx \<and>
            (\<forall>e. llm (build_prompt query ctx) = Inl e \<longrightarrow>
               generate_openai_response fmt llm query employees =
                 generate_template_response fmt query employees \<and>
               generate_response fmt llm api_key self query employees =
                 generate_template_response fmt query employees) \<and>
            (\<forall>text. llm (build_prompt query ctx) = Inr text \<longrightarrow>
               generate_openai_response fmt llm query employees = Inr text \<and>
               generate_response fmt llm api_key self query employees =
                 (if openai_client self \<and> truthy api_key then Inr text
                  else generate_template_response fmt query employees))) \<and>
         ((\<forall>prompt. \<exists>e. llm prompt = Inl e) \<longrightarrow>
            generate_openai_response fmt llm query employees =
              generate_template_response fmt query employees \<and>
            generate_response fmt llm api_key self query employees =
              generate_template_response fmt query employees)"
proof -
  from template_total[OF assms(2)] obtain t where
    t: "generate_template_response fmt query employees = Inr t" by blast
  from build_context_total[OF assms(2)] obtain ctx where
    c: "build_context fmt employees
          ''Based on your query, here are the relevant employees:\<newline>\<newline>'' = Inr ctx"
    by blast
  have fail: "generate_openai_response fmt llm query employees =
                generate_template_response fmt query employees"
    if "llm (build_prompt query ctx) = Inl e" for e
    using that by (simp add: generate_openai_response_def c)
  have succ: "generate_openai_response fmt llm query employees = Inr reply"
    if "llm (build_prompt query ctx) = Inr reply" for reply
    using that by (simp add: generate_openai_response_def c)
  have o: "\<exists>text. generate_openai_response fmt llm query employees = Inr text"
    by (cases "llm (build_prompt query ctx)") (simp_all add: fail succ t)
  then have g: "\<exists>text. generate_response fmt llm api_key self query employees = Inr text"
    using assms(1) t by (simp add: generate_response_def)
  have gfail: "generate_response fmt llm api_key self query employees =
                 generate_template_response fmt query employees"
    if "llm (build_prompt query ctx) = Inl e" for e
    using assms(1) fail[OF that] by (simp add: generate_response_def)
  have gsucc: "generate_response fmt llm api_key self query employees =
                 (if openai_client self \<and> truthy api_key then Inr reply
                  else generate_template_response fmt query employees)"
    if "llm (build_prompt query ctx) = Inr reply" for reply
    using assms(1) succ[OF that] by (simp add: generate_response_def)
  have per_call: "\<exists>ctx. build_context fmt employees
                  ''Based on your query, here are the relevant employees:\<newline>\<newline>'' = Inr ctx \<and>
            (\<forall>e. llm (build_prompt query ctx) = Inl e \<longrightarrow>
               generate_openai_response fmt llm query employees =
                 generate_template_response fmt query employees \<and>
               generate_response fmt llm api_key self query employees =
                 generate_template_response fmt query employees) \<and>
            (\<forall>text. llm (build_prompt query ctx) = Inr text \<longrightarrow>
               generate_openai_response fmt llm query employees = Inr text \<and>
               generate_response fmt llm api_key self query employees =
                 (if openai_client self \<and> truthy api_key then Inr text
                  else generate_template_response fmt query employees))"
    using c fail gfail succ gsucc by blast
  have always: "generate_openai_response fmt llm query employees =
              generate_template_response fmt query employees \<and>
            generate_response fmt llm api_key self query employees =
              generate_template_response fmt query employees"
    if "\<forall>prompt. \<exists>e. llm prompt = Inl e"
  proof -
    from that obtain e where "llm (build_prompt query ctx) = Inl e" by blast
    then show ?thesis using fail gfail by blast
  qed
  from g o per_call always show ?thesis by blast
qed

text \<open>
  The collaborator of the example answers some prompts, and times out on the prompt the
  synthesizer sends: the answer is the template response.
\<close>

theorem generation_failure_falls_back_witness:
  "[ann] \<noteq> [] \<and> list_all (normalizes example_fmt) [ann] \<and>
   example_llm ''hello'' = Inr ''ok'' \<and>
   (\<exists>text. generate_response example_fmt example_llm (Some ''sk-key'')
            (example_bot\<lparr>openai_client := True\<rparr>) ''sql'' [ann] = Inr text) \<and>
   generate_openai_response example_fmt example_llm ''sql'' [ann] =
     generate_template_response example_fmt ''sql'' [ann] \<and>
   generate_response example_fmt example_llm (Some ''sk-key'')
     (example_bot\<lparr>openai_client := True\<rparr>) ''sql'' [ann] =
     generate_template_response example_fmt ''sql'' [ann]"
proof -
  have a: "[ann] \<noteq> []" by simp
  have b: "list_all (normalizes example_fmt) [ann]"
    by (simp add: normalizes_def create_employee_text_ann)
  have short: "example_llm ''hello'' = Inr ''ok''" by (simp add: example_llm_def)
  have long: "example_llm (build_prompt ''sql'' ctx) = Inl (CollaboratorError ''timeout'')" for ctx
    by (simp add: example_llm_def build_prompt_def)
  from generation_failure_falls_back[OF a b, of example_llm "Some ''sk-key''"
      "example_bot\<lparr>openai_client := True\<rparr>" "''sql''"] long a b short
  show ?thesis by blast
qed

end
